theory Spec2Isabelle
  imports Complex_Main
begin

section \<open>Superannuation projection engine of FinApp\<close>

text \<open>
  The two projectors of \<^verbatim>\<open>src/utils/formatting.ts\<close> (the part that the component
  imports as \<^verbatim>\<open>utils/superCalculations\<close>), with the constants of
  \<^verbatim>\<open>src/constants.ts\<close> and the interfaces of \<^verbatim>\<open>src/types.ts\<close>.

  A TypeScript \<^verbatim>\<open>number\<close> is modelled as an exact rational (\<^typ>\<open>rat\<close>): the
  properties below are statements of exact arithmetic, rounding of IEEE doubles is
  outside the model. An optional field (\<^verbatim>\<open>number | undefined\<close>) is a
  \<^typ>\<open>rat option\<close>.
\<close>

subsection \<open>Constants (\<^verbatim>\<open>src/constants.ts\<close>)\<close>

definition SUPER_GUARANTEE_RATE :: rat where
  "SUPER_GUARANTEE_RATE = 115 / 1000"

definition CONCESSIONAL_CONTRIBUTION_CAP :: rat where
  "CONCESSIONAL_CONTRIBUTION_CAP = 27500"

definition NON_CONCESSIONAL_CONTRIBUTION_CAP :: rat where
  "NON_CONCESSIONAL_CONTRIBUTION_CAP = 110000"

definition TOTAL_SUPER_BALANCE_LIMIT_FOR_NON_CONCESSIONAL :: rat where
  "TOTAL_SUPER_BALANCE_LIMIT_FOR_NON_CONCESSIONAL = 1900000"

definition SUPER_EARNINGS_TAX_RATE :: rat where
  "SUPER_EARNINGS_TAX_RATE = 15 / 100"

subsection \<open>Data model (\<^verbatim>\<open>src/types.ts\<close>)\<close>

record SuperannuationInputs =
  currentAge :: rat
  retirementAge :: rat
  currentBalance :: rat
  annualSalary :: rat
  voluntaryConcessionalContribution :: rat
  voluntaryNonConcessionalContribution :: rat
  expectedReturnRate :: rat
  salaryGrowthRate :: rat
  inflationRate :: rat

record PostRetirementInputs =
  annualLivingExpenses :: rat
  otherInvestmentIncome :: rat
  superDrawdownRate :: "rat option"

text \<open>
  The two projection records share five field names. Both records keep the names of
  the source; a field is written with its record's name in front
  (\<open>SuperYearProjection.endingBalance\<close>, \<open>PostRetirementYearProjection.endingBalance\<close>).
\<close>

record SuperYearProjection =
  year :: rat
  age :: rat
  startingBalance :: rat
  sgContributions :: rat
  voluntaryConcessional :: rat
  voluntaryNonConcessional :: rat
  totalConcessional :: rat
  investmentReturns :: rat
  taxOnEarnings :: rat
  endingBalance :: rat
  concessionalCapExceededBy :: "rat option"
  nonConcessionalCapExceededBy :: "rat option"

record PostRetirementYearProjection =
  year :: rat
  age :: rat
  startingBalance :: rat
  investmentReturns :: rat
  drawdown :: rat
  otherIncome :: rat
  totalIncome :: rat
  shortfall :: "rat option"
  endingBalance :: rat

subsection \<open>The wall clock\<close>

text \<open>
  Both projectors evaluate \<^verbatim>\<open>new Date().getFullYear()\<close> once in every iteration
  that produces a record. The clock is the one piece of the outside world they read;
  it is passed explicitly: \<open>getFullYear k\<close> is the calendar year returned by the
  \<open>k\<close>-th such call (counted from 0) of one invocation.
\<close>

type_synonym clock = "nat \<Rightarrow> int"

definition later :: "clock \<Rightarrow> clock" where
  "later getFullYear = (\<lambda>k. getFullYear (Suc k))"

subsection \<open>\<^verbatim>\<open>projectSuperannuationBalance\<close>\<close>

text \<open>
  The body of the \<^verbatim>\<open>for\<close> loop (lines 68 to 116 of the source): the record pushed
  in a year that starts at age \<open>age'\<close> with balance \<open>currentBalance'\<close> and salary
  \<open>currentSalary\<close>, when the clock reads \<open>thisYear\<close>.
\<close>

definition projectSuperannuationBalance_year ::
  "int \<Rightarrow> SuperannuationInputs \<Rightarrow> rat \<Rightarrow> rat \<Rightarrow> rat \<Rightarrow> SuperYearProjection" where
  "projectSuperannuationBalance_year thisYear inputs age' currentBalance' currentSalary =
    (let year = of_int thisYear + (age' - currentAge inputs);
         sgContributions = currentSalary * SUPER_GUARANTEE_RATE;
         voluntaryConcessional = voluntaryConcessionalContribution inputs;
         totalConcessional = sgContributions + voluntaryConcessional;
         concessionalCapExceededBy =
           (if totalConcessional > CONCESSIONAL_CONTRIBUTION_CAP
            then Some (totalConcessional - CONCESSIONAL_CONTRIBUTION_CAP) else None);
         voluntaryNonConcessional = voluntaryNonConcessionalContribution inputs;
         currentNonConcessionalCap =
           (if currentBalance' \<ge> TOTAL_SUPER_BALANCE_LIMIT_FOR_NON_CONCESSIONAL
            then 0 else NON_CONCESSIONAL_CONTRIBUTION_CAP);
         nonConcessionalCapExceededBy =
           (if voluntaryNonConcessional > currentNonConcessionalCap
            then Some (voluntaryNonConcessional - currentNonConcessionalCap) else None);
         effectiveNonConcessional = min voluntaryNonConcessional currentNonConcessionalCap;
         balanceBeforeReturns = currentBalance' + totalConcessional + effectiveNonConcessional;
         investmentReturns = balanceBeforeReturns * (expectedReturnRate inputs / 100);
         taxOnEarnings =
           (if investmentReturns > 0 then investmentReturns * SUPER_EARNINGS_TAX_RATE else 0);
         endingBalance = balanceBeforeReturns + investmentReturns - taxOnEarnings
     in \<lparr>SuperYearProjection.year = year,
         SuperYearProjection.age = age',
         SuperYearProjection.startingBalance = currentBalance',
         sgContributions = sgContributions,
         voluntaryConcessional = voluntaryConcessional,
         voluntaryNonConcessional = effectiveNonConcessional,
         totalConcessional = totalConcessional,
         SuperYearProjection.investmentReturns = investmentReturns,
         taxOnEarnings = taxOnEarnings,
         SuperYearProjection.endingBalance = endingBalance,
         concessionalCapExceededBy = concessionalCapExceededBy,
         nonConcessionalCapExceededBy = nonConcessionalCapExceededBy\<rparr>)"

text \<open>
  The loop \<^verbatim>\<open>for (let age = inputs.currentAge; age < inputs.retirementAge; age++)\<close>
  from a given state. The array \<^verbatim>\<open>projections\<close> is the list of the records in
  the order they are pushed. The balance carried into the next year is the record's
  \<^verbatim>\<open>endingBalance\<close> (line 118), the salary grows after the record is pushed
  (line 119).
\<close>

function projectSuperannuationBalance_from ::
  "clock \<Rightarrow> SuperannuationInputs \<Rightarrow> rat \<Rightarrow> rat \<Rightarrow> rat \<Rightarrow> SuperYearProjection list" where
  "projectSuperannuationBalance_from getFullYear inputs age' currentBalance' currentSalary =
    (if age' < retirementAge inputs then
       (let r = projectSuperannuationBalance_year (getFullYear 0) inputs age'
                  currentBalance' currentSalary
        in r # projectSuperannuationBalance_from (later getFullYear) inputs (age' + 1)
                 (SuperYearProjection.endingBalance r)
                 (currentSalary * (1 + salaryGrowthRate inputs / 100)))
     else [])"
  by pat_completeness auto
termination
proof (relation "measure (\<lambda>(c, inputs, a, b, s). nat \<lceil>retirementAge inputs - a\<rceil>)")
  show "wf (measure (\<lambda>(c, inputs, a, b, s). nat \<lceil>retirementAge inputs - a\<rceil>))"
    by simp
next
  fix getFullYear :: clock and inputs :: SuperannuationInputs
    and age' currentBalance' currentSalary :: rat and x :: SuperYearProjection
  assume lt: "age' < retirementAge inputs"
  have "retirementAge inputs - (age' + 1) = retirementAge inputs - age' - 1"
    by simp
  then have "\<lceil>retirementAge inputs - (age' + 1)\<rceil> = \<lceil>retirementAge inputs - age'\<rceil> - 1"
    by (simp only: ceiling_diff_one)
  moreover from lt have "0 < \<lceil>retirementAge inputs - age'\<rceil>"
    by simp
  ultimately show "((later getFullYear, inputs, age' + 1,
        SuperYearProjection.endingBalance x, currentSalary * (1 + salaryGrowthRate inputs / 100)),
        (getFullYear, inputs, age', currentBalance', currentSalary))
      \<in> measure (\<lambda>(c, inputs, a, b, s). nat \<lceil>retirementAge inputs - a\<rceil>)"
    by simp
qed

declare projectSuperannuationBalance_from.simps [simp del]

definition projectSuperannuationBalance ::
  "clock \<Rightarrow> SuperannuationInputs \<Rightarrow> SuperYearProjection list" where
  "projectSuperannuationBalance getFullYear inputs =
     projectSuperannuationBalance_from getFullYear inputs
       (currentAge inputs) (currentBalance inputs) (annualSalary inputs)"

subsection \<open>\<^verbatim>\<open>projectPostRetirement\<close>\<close>

text \<open>
  The body of the loop after the first \<^verbatim>\<open>break\<close> (lines 140 to 171): the record
  pushed, paired with the local \<^verbatim>\<open>endingBalance\<close>, which is the value before the
  floor \<^verbatim>\<open>Math.max(0, endingBalance)\<close> of the record and the value that the second
  \<^verbatim>\<open>break\<close> tests and the next year starts from. \<^verbatim>\<open>drawdown\<close> is assigned
  five times in the source; each assignment is one binding here.
\<close>

definition projectPostRetirement_year ::
  "int \<Rightarrow> SuperannuationInputs \<Rightarrow> PostRetirementInputs \<Rightarrow> rat \<Rightarrow> rat \<Rightarrow> rat
     \<Rightarrow> PostRetirementYearProjection \<times> rat" where
  "projectPostRetirement_year thisYear superInputs postRetirementInputs age' currentBalance'
       currentAnnualLivingExpenses =
    (let year = of_int thisYear + (age' - currentAge superInputs);
         investmentReturns = currentBalance' * (expectedReturnRate superInputs / 100);
         drawdown = currentAnnualLivingExpenses - otherInvestmentIncome postRetirementInputs;
         drawdown = (if drawdown < 0 then 0 else drawdown);
         drawdown = min drawdown (currentBalance' + investmentReturns);
         balanceAfterReturns = currentBalance' + investmentReturns;
         drawdown = min (currentAnnualLivingExpenses - otherInvestmentIncome postRetirementInputs)
                        balanceAfterReturns;
         drawdown = (if drawdown < 0 then 0 else drawdown);
         endingBalance = balanceAfterReturns - drawdown;
         totalIncomeAvailable = drawdown + otherInvestmentIncome postRetirementInputs;
         shortfall =
           (if currentAnnualLivingExpenses > totalIncomeAvailable
            then Some (currentAnnualLivingExpenses - totalIncomeAvailable) else None)
     in (\<lparr>PostRetirementYearProjection.year = year,
          PostRetirementYearProjection.age = age',
          PostRetirementYearProjection.startingBalance = currentBalance',
          PostRetirementYearProjection.investmentReturns = investmentReturns,
          drawdown = drawdown,
          otherIncome = otherInvestmentIncome postRetirementInputs,
          totalIncome = totalIncomeAvailable,
          shortfall = shortfall,
          PostRetirementYearProjection.endingBalance = max 0 endingBalance\<rparr>,
         endingBalance))"

text \<open>
  The loop \<^verbatim>\<open>for (let i = 0; i < maxYears; i++)\<close> from a given state, with its two
  \<^verbatim>\<open>break\<close>s: before the record when the balance is used up and \<open>i > 0\<close>, and
  after the record when the year's ending balance is not positive. The counter \<open>i\<close>
  counts up from 0 in steps of 1; \<^verbatim>\<open>maxYears\<close> is any number.
\<close>

function projectPostRetirement_from ::
  "clock \<Rightarrow> rat \<Rightarrow> SuperannuationInputs \<Rightarrow> PostRetirementInputs \<Rightarrow> rat \<Rightarrow> nat \<Rightarrow> rat \<Rightarrow> rat
     \<Rightarrow> PostRetirementYearProjection list" where
  "projectPostRetirement_from getFullYear retirementAge' superInputs postRetirementInputs maxYears
       i currentBalance' currentAnnualLivingExpenses =
    (if of_nat i < maxYears then
       (if currentBalance' \<le> 0 \<and> i > 0 then []
        else
          (case projectPostRetirement_year (getFullYear 0) superInputs postRetirementInputs
                  (retirementAge' + of_nat i) currentBalance' currentAnnualLivingExpenses of
             (r, endingBalance') \<Rightarrow>
               if endingBalance' \<le> 0 then [r]
               else r # projectPostRetirement_from (later getFullYear) retirementAge' superInputs
                          postRetirementInputs maxYears (Suc i) endingBalance'
                          (currentAnnualLivingExpenses * (1 + inflationRate superInputs / 100))))
     else [])"
  by pat_completeness auto
termination
proof (relation "measure (\<lambda>(c, ra, si, pri, maxYears, i, b, l). nat \<lceil>maxYears\<rceil> - i)")
  show "wf (measure (\<lambda>(c, ra, si, pri, maxYears, i, b, l). nat \<lceil>maxYears :: rat\<rceil> - i))"
    by simp
next
  fix getFullYear :: clock and retirementAge' maxYears currentBalance'
    currentAnnualLivingExpenses :: rat and superInputs :: SuperannuationInputs
    and postRetirementInputs :: PostRetirementInputs and i :: nat
    and x :: "PostRetirementYearProjection \<times> rat" and r :: PostRetirementYearProjection
    and endingBalance' :: rat
  assume lt: "of_nat i < maxYears"
  from lt have "int i < \<lceil>maxYears\<rceil>"
    by (simp add: less_ceiling_iff)
  then show "((later getFullYear, retirementAge', superInputs, postRetirementInputs, maxYears,
        Suc i, endingBalance', currentAnnualLivingExpenses * (1 + inflationRate superInputs / 100)),
        (getFullYear, retirementAge', superInputs, postRetirementInputs, maxYears,
        i, currentBalance', currentAnnualLivingExpenses))
      \<in> measure (\<lambda>(c, ra, si, pri, maxYears, i, b, l). nat \<lceil>maxYears\<rceil> - i)"
    by simp
qed

declare projectPostRetirement_from.simps [simp del]

text \<open>
  \<^verbatim>\<open>maxYears\<close> is the last parameter, as in the source; its default is 35, and the
  only call in the repository (\<^verbatim>\<open>SuperannuationSection.tsx\<close>) passes none.
\<close>

definition projectPostRetirement ::
  "clock \<Rightarrow> rat \<Rightarrow> rat \<Rightarrow> SuperannuationInputs \<Rightarrow> PostRetirementInputs \<Rightarrow> rat
     \<Rightarrow> PostRetirementYearProjection list" where
  "projectPostRetirement getFullYear startingRetirementBalance retirementAge' superInputs
       postRetirementInputs maxYears =
     projectPostRetirement_from getFullYear retirementAge' superInputs postRetirementInputs
       maxYears 0 startingRetirementBalance (annualLivingExpenses postRetirementInputs)"

definition projectPostRetirement_default ::
  "clock \<Rightarrow> rat \<Rightarrow> rat \<Rightarrow> SuperannuationInputs \<Rightarrow> PostRetirementInputs
     \<Rightarrow> PostRetirementYearProjection list" where
  "projectPostRetirement_default getFullYear startingRetirementBalance retirementAge' superInputs
       postRetirementInputs =
     projectPostRetirement getFullYear startingRetirementBalance retirementAge' superInputs
       postRetirementInputs 35"

subsection \<open>Records up to the calendar year\<close>

text \<open>
  \<open>withoutYear\<close> and \<open>withoutYear'\<close> overwrite the field \<^verbatim>\<open>year\<close>, the only field
  computed from the clock; they serve to say that two records agree in every other field.
\<close>

definition withoutYear :: "SuperYearProjection \<Rightarrow> SuperYearProjection" where
  "withoutYear r = r\<lparr>SuperYearProjection.year := 0\<rparr>"

definition withoutYear' :: "PostRetirementYearProjection \<Rightarrow> PostRetirementYearProjection" where
  "withoutYear' r = r\<lparr>PostRetirementYearProjection.year := 0\<rparr>"

subsection \<open>Concrete inputs\<close>

text \<open>Two clocks that stay within one calendar year during a run.\<close>

definition clock2025 :: clock where
  "clock2025 k = 2025"

definition clock2026 :: clock where
  "clock2026 k = 2026"

text \<open>A clock that passes the turn of the year after its second reading.\<close>

definition turnOfYearClock :: clock where
  "turnOfYearClock k = (if k < 2 then 2025 else 2026)"

text \<open>\<^verbatim>\<open>DEFAULT_SUPER_INPUTS\<close> with the retirement age lowered to 32: two years.\<close>

definition twoYearInputs :: SuperannuationInputs where
  "twoYearInputs = \<lparr>currentAge = 30, retirementAge = 32, currentBalance = 50000,
     annualSalary = 80000, voluntaryConcessionalContribution = 0,
     voluntaryNonConcessionalContribution = 0, expectedReturnRate = 7,
     salaryGrowthRate = 3, inflationRate = 5 / 2\<rparr>"

text \<open>One year at 7 per cent.\<close>

definition oneYearInputs :: SuperannuationInputs where
  "oneYearInputs = \<lparr>currentAge = 30, retirementAge = 31, currentBalance = 100000,
     annualSalary = 80000, voluntaryConcessionalContribution = 0,
     voluntaryNonConcessionalContribution = 0, expectedReturnRate = 7,
     salaryGrowthRate = 3, inflationRate = 5 / 2\<rparr>"

text \<open>
  Both caps are exceeded, and the balance crosses the total-super-balance limit after
  the first year.
\<close>

definition overCapInputs :: SuperannuationInputs where
  "overCapInputs = \<lparr>currentAge = 60, retirementAge = 62, currentBalance = 1850000,
     annualSalary = 300000, voluntaryConcessionalContribution = 10000,
     voluntaryNonConcessionalContribution = 150000, expectedReturnRate = 7,
     salaryGrowthRate = 3, inflationRate = 5 / 2\<rparr>"

text \<open>A return rate below -100 per cent on a positive balance, three years.\<close>

definition lossInputs :: SuperannuationInputs where
  "lossInputs = \<lparr>currentAge = 30, retirementAge = 33, currentBalance = 1000,
     annualSalary = 0, voluntaryConcessionalContribution = 0,
     voluntaryNonConcessionalContribution = 0, expectedReturnRate = - 200,
     salaryGrowthRate = 0, inflationRate = 0\<rparr>"

text \<open>One year at 7 per cent that starts from an overdrawn balance, with no contributions.\<close>

definition overdrawnInputs :: SuperannuationInputs where
  "overdrawnInputs = \<lparr>currentAge = 30, retirementAge = 31, currentBalance = - 1000,
     annualSalary = 0, voluntaryConcessionalContribution = 0,
     voluntaryNonConcessionalContribution = 0, expectedReturnRate = 7,
     salaryGrowthRate = 0, inflationRate = 0\<rparr>"

text \<open>No return in retirement, living expenses inflated by 2.5 per cent a year.\<close>

definition noReturnInputs :: SuperannuationInputs where
  "noReturnInputs = \<lparr>currentAge = 30, retirementAge = 67, currentBalance = 50000,
     annualSalary = 80000, voluntaryConcessionalContribution = 0,
     voluntaryNonConcessionalContribution = 0, expectedReturnRate = 0,
     salaryGrowthRate = 3, inflationRate = 5 / 2\<rparr>"

text \<open>\<^verbatim>\<open>DEFAULT_POST_RETIREMENT_INPUTS\<close>.\<close>

definition defaultPostInputs :: PostRetirementInputs where
  "defaultPostInputs = \<lparr>annualLivingExpenses = 60000, otherInvestmentIncome = 0,
     superDrawdownRate = None\<rparr>"

section \<open>Properties\<close>

lemmas constants_defs =
  SUPER_GUARANTEE_RATE_def CONCESSIONAL_CONTRIBUTION_CAP_def
  NON_CONCESSIONAL_CONTRIBUTION_CAP_def
  TOTAL_SUPER_BALANCE_LIMIT_FOR_NON_CONCESSIONAL_def SUPER_EARNINGS_TAX_RATE_def

lemmas example_defs =
  clock2025_def clock2026_def turnOfYearClock_def twoYearInputs_def oneYearInputs_def overCapInputs_def
  lossInputs_def overdrawnInputs_def noReturnInputs_def defaultPostInputs_def

subsection \<open>The accumulation loop\<close>

lemma super_from_records:
  "r \<in> set (projectSuperannuationBalance_from c inputs a b s) \<Longrightarrow>
     \<exists>y a' b' s'. r = projectSuperannuationBalance_year y inputs a' b' s'"
proof (induction c inputs a b s rule: projectSuperannuationBalance_from.induct)
  case (1 c inputs a b s)
  from "1.prems" show ?case
    by (subst (asm) projectSuperannuationBalance_from.simps)
       (auto simp: Let_def split: if_splits dest: "1.IH"[OF _ refl])
qed

lemma super_records:
  "r \<in> set (projectSuperannuationBalance c inputs) \<Longrightarrow>
     \<exists>y a' b' s'. r = projectSuperannuationBalance_year y inputs a' b' s'"
  unfolding projectSuperannuationBalance_def by (rule super_from_records)

lemma super_from_unfold_lt:
  "a < retirementAge inputs \<Longrightarrow>
   projectSuperannuationBalance_from c inputs a b s =
     projectSuperannuationBalance_year (c 0) inputs a b s #
     projectSuperannuationBalance_from (later c) inputs (a + 1)
       (SuperYearProjection.endingBalance (projectSuperannuationBalance_year (c 0) inputs a b s))
       (s * (1 + salaryGrowthRate inputs / 100))"
  by (subst projectSuperannuationBalance_from.simps) (simp add: Let_def)

lemma super_from_unfold_ge:
  "\<not> a < retirementAge inputs \<Longrightarrow> projectSuperannuationBalance_from c inputs a b s = []"
  by (subst projectSuperannuationBalance_from.simps) simp

lemma super_from_ages:
  assumes "retirementAge inputs = of_int hi"
  shows "map SuperYearProjection.age
           (projectSuperannuationBalance_from c inputs (of_int lo) b s) = map of_int [lo..hi - 1]"
proof (induction "nat (hi - lo)" arbitrary: lo c b s)
  case 0
  then have "\<not> (of_int lo :: rat) < retirementAge inputs"
    by (simp add: assms)
  moreover from 0 have "[lo..hi - 1] = []"
    by simp
  ultimately show ?case
    by (simp add: super_from_unfold_ge)
next
  case (Suc n)
  then have lt: "lo < hi"
    by simp
  then have "(of_int lo :: rat) < retirementAge inputs"
    by (simp add: assms)
  moreover have "n = nat (hi - (lo + 1))"
    using Suc.hyps(2) by simp
  then have "map SuperYearProjection.age
      (projectSuperannuationBalance_from c' inputs (of_int (lo + 1)) b' s') = map of_int [lo + 1..hi - 1]"
    for c' b' s'
    by (rule Suc.hyps(1))
  moreover have "[lo..hi - 1] = lo # [lo + 1..hi - 1]"
    using lt by (simp add: upto_rec1)
  ultimately show ?case
    by (simp add: super_from_unfold_lt projectSuperannuationBalance_year_def Let_def)
qed

lemma super_from_head:
  "projectSuperannuationBalance_from c inputs a b s = r # rest \<Longrightarrow>
     SuperYearProjection.startingBalance r = b"
  by (cases "a < retirementAge inputs")
     (auto simp: super_from_unfold_lt super_from_unfold_ge projectSuperannuationBalance_year_def Let_def)

lemma super_from_chain:
  "Suc k < length (projectSuperannuationBalance_from c inputs a b s) \<Longrightarrow>
   SuperYearProjection.startingBalance (projectSuperannuationBalance_from c inputs a b s ! Suc k) =
   SuperYearProjection.endingBalance (projectSuperannuationBalance_from c inputs a b s ! k)"
proof (induction k arbitrary: c a b s)
  case 0
  then have lt: "a < retirementAge inputs"
    by (auto simp: super_from_unfold_ge intro: ccontr)
  let ?r = "projectSuperannuationBalance_year (c 0) inputs a b s"
  let ?rest = "projectSuperannuationBalance_from (later c) inputs (a + 1)
       (SuperYearProjection.endingBalance ?r) (s * (1 + salaryGrowthRate inputs / 100))"
  from 0 lt obtain r' rest' where "?rest = r' # rest'"
    by (cases ?rest) (auto simp: super_from_unfold_lt)
  then show ?case
    using lt super_from_head[of "later c" inputs "a + 1" "SuperYearProjection.endingBalance ?r" _ r' rest']
    by (simp add: super_from_unfold_lt)
next
  case (Suc k)
  then have lt: "a < retirementAge inputs"
    by (auto simp: super_from_unfold_ge intro: ccontr)
  with Suc show ?case
    by (simp add: super_from_unfold_lt)
qed

lemma super_year_clock:
  "withoutYear (projectSuperannuationBalance_year y1 inputs a b s) =
   withoutYear (projectSuperannuationBalance_year y2 inputs a b s)"
  "SuperYearProjection.endingBalance (projectSuperannuationBalance_year y1 inputs a b s) =
   SuperYearProjection.endingBalance (projectSuperannuationBalance_year y2 inputs a b s)"
  by (simp_all add: projectSuperannuationBalance_year_def Let_def withoutYear_def)

lemma super_from_clock:
  "map withoutYear (projectSuperannuationBalance_from c1 inputs a b s) =
   map withoutYear (projectSuperannuationBalance_from c2 inputs a b s)"
proof (induction c1 inputs a b s arbitrary: c2 rule: projectSuperannuationBalance_from.induct)
  case (1 c1 inputs a b s)
  show ?case
  proof (cases "a < retirementAge inputs")
    case True
    have e: "SuperYearProjection.endingBalance (projectSuperannuationBalance_year (c2 0) inputs a b s) =
      SuperYearProjection.endingBalance (projectSuperannuationBalance_year (c1 0) inputs a b s)"
      by (rule super_year_clock(2))
    show ?thesis
      using True "1.IH"[OF True refl, of "later c2"] super_year_clock(1)[of "c1 0" inputs a b s "c2 0"]
      by (simp add: super_from_unfold_lt e)
  next
    case False
    then show ?thesis
      by (simp add: super_from_unfold_ge)
  qed
qed

lemma super_from_year:
  "k < length (projectSuperannuationBalance_from c inputs a b s) \<Longrightarrow>
   SuperYearProjection.year (projectSuperannuationBalance_from c inputs a b s ! k) =
     of_int (c k) +
     (SuperYearProjection.age (projectSuperannuationBalance_from c inputs a b s ! k) - currentAge inputs)"
proof (induction k arbitrary: c a b s)
  case 0
  then have lt: "a < retirementAge inputs"
    by (auto simp: super_from_unfold_ge intro: ccontr)
  then show ?case
    by (simp add: super_from_unfold_lt projectSuperannuationBalance_year_def Let_def)
next
  case (Suc k)
  then have lt: "a < retirementAge inputs"
    by (auto simp: super_from_unfold_ge intro: ccontr)
  with Suc show ?case
    by (simp add: super_from_unfold_lt later_def)
qed

subsection \<open>The drawdown loop\<close>

lemma post_year_snd:
  "snd (projectPostRetirement_year y si pri a b l) =
     PostRetirementYearProjection.startingBalance (fst (projectPostRetirement_year y si pri a b l))
     + PostRetirementYearProjection.investmentReturns (fst (projectPostRetirement_year y si pri a b l))
     - drawdown (fst (projectPostRetirement_year y si pri a b l))"
  by (simp add: projectPostRetirement_year_def Let_def)

lemma post_year_ending:
  "PostRetirementYearProjection.endingBalance (fst (projectPostRetirement_year y si pri a b l)) =
     max 0 (snd (projectPostRetirement_year y si pri a b l))"
  by (simp add: projectPostRetirement_year_def Let_def)

lemma post_year_start:
  "PostRetirementYearProjection.startingBalance (fst (projectPostRetirement_year y si pri a b l)) = b"
  by (simp add: projectPostRetirement_year_def Let_def)

lemma post_from_stop:
  "\<not> of_nat i < m \<or> (b \<le> 0 \<and> i > 0) \<Longrightarrow> projectPostRetirement_from c ra si pri m i b l = []"
  by (subst projectPostRetirement_from.simps) auto

lemma post_from_last:
  "of_nat i < m \<Longrightarrow> \<not> (b \<le> 0 \<and> i > 0) \<Longrightarrow>
   snd (projectPostRetirement_year (c 0) si pri (ra + of_nat i) b l) \<le> 0 \<Longrightarrow>
   projectPostRetirement_from c ra si pri m i b l =
     [fst (projectPostRetirement_year (c 0) si pri (ra + of_nat i) b l)]"
  by (subst projectPostRetirement_from.simps) (simp add: case_prod_beta)

lemma post_from_step:
  "of_nat i < m \<Longrightarrow> \<not> (b \<le> 0 \<and> i > 0) \<Longrightarrow>
   0 < snd (projectPostRetirement_year (c 0) si pri (ra + of_nat i) b l) \<Longrightarrow>
   projectPostRetirement_from c ra si pri m i b l =
     fst (projectPostRetirement_year (c 0) si pri (ra + of_nat i) b l) #
     projectPostRetirement_from (later c) ra si pri m (Suc i)
       (snd (projectPostRetirement_year (c 0) si pri (ra + of_nat i) b l))
       (l * (1 + inflationRate si / 100))"
  by (subst projectPostRetirement_from.simps) (simp add: case_prod_beta)

text \<open>Case analysis of one unfolding of the loop.\<close>

lemma post_from_cases:
  obtains (stop) "\<not> of_nat i < m \<or> (b \<le> 0 \<and> i > 0)"
      "projectPostRetirement_from c ra si pri m i b l = []"
  | (last) "of_nat i < m" "\<not> (b \<le> 0 \<and> i > 0)"
      "snd (projectPostRetirement_year (c 0) si pri (ra + of_nat i) b l) \<le> 0"
      "projectPostRetirement_from c ra si pri m i b l =
        [fst (projectPostRetirement_year (c 0) si pri (ra + of_nat i) b l)]"
  | (step) "of_nat i < m" "\<not> (b \<le> 0 \<and> i > 0)"
      "0 < snd (projectPostRetirement_year (c 0) si pri (ra + of_nat i) b l)"
      "projectPostRetirement_from c ra si pri m i b l =
         fst (projectPostRetirement_year (c 0) si pri (ra + of_nat i) b l) #
         projectPostRetirement_from (later c) ra si pri m (Suc i)
           (snd (projectPostRetirement_year (c 0) si pri (ra + of_nat i) b l))
           (l * (1 + inflationRate si / 100))"
  using post_from_stop post_from_last post_from_step
  by (meson not_le)

lemma post_from_induct [case_names loop]:
  assumes "\<And>c ra si pri (m :: rat) i b l.
    (of_nat i < m \<Longrightarrow> \<not> (b \<le> 0 \<and> i > 0) \<Longrightarrow>
     0 < snd (projectPostRetirement_year (c 0) si pri (ra + of_nat i) b l) \<Longrightarrow>
     P (later c) ra si pri m (Suc i)
       (snd (projectPostRetirement_year (c 0) si pri (ra + of_nat i) b l))
       (l * (1 + inflationRate si / 100))) \<Longrightarrow>
    P c ra si pri m i b l"
  shows "P c ra si pri (m :: rat) i b l"
proof (induction c ra si pri m i b l rule: projectPostRetirement_from.induct)
  case (1 c ra si pri m i b l)
  let ?p = "projectPostRetirement_year (c 0) si pri (ra + of_nat i) b l"
  show ?case
  proof (rule assms)
    assume "of_nat i < m" "\<not> (b \<le> 0 \<and> i > 0)" "0 < snd ?p"
    then show "P (later c) ra si pri m (Suc i) (snd ?p) (l * (1 + inflationRate si / 100))"
      using "1.IH"[of "fst ?p" "snd ?p"] by simp
  qed
qed

lemma post_from_records:
  "r \<in> set (projectPostRetirement_from c ra si pri m i b l) \<Longrightarrow>
     \<exists>y a' b' l'. r = fst (projectPostRetirement_year y si pri a' b' l')"
proof (induction c ra si pri m i b l rule: post_from_induct)
  case (loop c ra si pri m i b l)
  show ?case
  proof (cases rule: post_from_cases[of i m b c ra si pri l])
    case stop
    with loop.prems show ?thesis by simp
  next
    case last
    with loop.prems show ?thesis by auto
  next
    case step
    with loop show ?thesis by auto
  qed
qed

lemma post_from_length:
  "length (projectPostRetirement_from c ra si pri m i b l) \<le> nat \<lceil>m\<rceil> - i"
proof (induction c ra si pri m i b l rule: post_from_induct)
  case (loop c ra si pri m i b l)
  show ?case
  proof (cases rule: post_from_cases[of i m b c ra si pri l])
    case stop
    then show ?thesis by simp
  next
    case last
    from last(1) have "int i < \<lceil>m\<rceil>"
      by (simp add: less_ceiling_iff)
    with last show ?thesis by simp
  next
    case step
    from step(1) have "int i < \<lceil>m\<rceil>"
      by (simp add: less_ceiling_iff)
    with step loop.IH show ?thesis by simp
  qed
qed

text \<open>Only the last record can have a computed ending balance that is not positive.\<close>

lemma post_from_positive:
  "Suc k < length (projectPostRetirement_from c ra si pri m i b l) \<Longrightarrow>
   0 < PostRetirementYearProjection.startingBalance (projectPostRetirement_from c ra si pri m i b l ! k)
     + PostRetirementYearProjection.investmentReturns (projectPostRetirement_from c ra si pri m i b l ! k)
     - drawdown (projectPostRetirement_from c ra si pri m i b l ! k)"
proof (induction k arbitrary: c i b l)
  case 0
  then show ?case
    by (cases rule: post_from_cases[of i m b c ra si pri l]) (simp_all add: post_year_snd)
next
  case (Suc k)
  then show ?case
    by (cases rule: post_from_cases[of i m b c ra si pri l]) simp_all
qed

text \<open>A run that stops short of the horizon ends with a depleted year.\<close>

lemma post_from_early:
  "length (projectPostRetirement_from c ra si pri m i b l) < nat \<lceil>m\<rceil> - i \<Longrightarrow>
   i = 0 \<or> 0 < b \<Longrightarrow>
   projectPostRetirement_from c ra si pri m i b l \<noteq> [] \<and>
   PostRetirementYearProjection.startingBalance (last (projectPostRetirement_from c ra si pri m i b l))
     + PostRetirementYearProjection.investmentReturns (last (projectPostRetirement_from c ra si pri m i b l))
     - drawdown (last (projectPostRetirement_from c ra si pri m i b l)) \<le> 0 \<and>
   PostRetirementYearProjection.endingBalance (last (projectPostRetirement_from c ra si pri m i b l)) = 0"
proof (induction c ra si pri m i b l rule: post_from_induct)
  case (loop c ra si pri m i b l)
  from loop.prems(1) have "int i < \<lceil>m\<rceil>"
    by simp
  then have lt: "of_nat i < m"
    by (simp add: less_ceiling_iff)
  show ?case
  proof (cases rule: post_from_cases[of i m b c ra si pri l])
    case stop
    with lt loop.prems(2) show ?thesis by auto
  next
    case last
    then show ?thesis
      by (simp add: post_year_ending flip: post_year_snd)
  next
    case step
    with loop show ?thesis by simp
  qed
qed

lemma post_from_start_nonneg:
  "0 \<le> b \<Longrightarrow> r \<in> set (projectPostRetirement_from c ra si pri m i b l) \<Longrightarrow>
     0 \<le> PostRetirementYearProjection.startingBalance r"
proof (induction c ra si pri m i b l rule: post_from_induct)
  case (loop c ra si pri m i b l)
  show ?case
  proof (cases rule: post_from_cases[of i m b c ra si pri l])
    case stop
    with loop.prems show ?thesis by simp
  next
    case last
    with loop.prems show ?thesis by (simp add: post_year_start)
  next
    case step
    with loop show ?thesis by (auto simp: post_year_start)
  qed
qed

text \<open>The record of index \<open>k\<close> is computed from the living expenses inflated \<open>k\<close> times,
  at age \<open>retirementAge + i + k\<close>, with the \<open>k\<close>-th reading of the clock.\<close>

lemma post_from_nth:
  "k < length (projectPostRetirement_from c ra si pri m i b l) \<Longrightarrow>
   \<exists>b'. projectPostRetirement_from c ra si pri m i b l ! k =
     fst (projectPostRetirement_year (c k) si pri (ra + of_nat (i + k)) b'
            (l * (1 + inflationRate si / 100) ^ k))"
proof (induction k arbitrary: c i b l)
  case 0
  then show ?case
    by (cases rule: post_from_cases[of i m b c ra si pri l]) auto
next
  case (Suc k)
  show ?case
  proof (cases rule: post_from_cases[of i m b c ra si pri l])
    case stop
    with Suc.prems show ?thesis by simp
  next
    case last
    with Suc.prems show ?thesis by simp
  next
    case step
    let ?p = "projectPostRetirement_year (c 0) si pri (ra + of_nat i) b l"
    from Suc.prems step(4)
    have "k < length (projectPostRetirement_from (later c) ra si pri m (Suc i) (snd ?p)
                   (l * (1 + inflationRate si / 100)))"
      by simp
    from Suc.IH[OF this] step(4) show ?thesis
      by (simp add: later_def mult.assoc)
  qed
qed

lemma post_year_clock:
  "withoutYear' (fst (projectPostRetirement_year y1 si pri a b l)) =
   withoutYear' (fst (projectPostRetirement_year y2 si pri a b l))"
  "snd (projectPostRetirement_year y1 si pri a b l) = snd (projectPostRetirement_year y2 si pri a b l)"
  by (simp_all add: projectPostRetirement_year_def Let_def withoutYear'_def)

lemma post_from_clock:
  "map withoutYear' (projectPostRetirement_from c1 ra si pri m i b l) =
   map withoutYear' (projectPostRetirement_from c2 ra si pri m i b l)"
proof (induction c1 ra si pri m i b l arbitrary: c2 rule: post_from_induct)
  case (loop c1 ra si pri m i b l)
  have s: "snd (projectPostRetirement_year (c2 0) si pri (ra + of_nat i) b l) =
    snd (projectPostRetirement_year (c1 0) si pri (ra + of_nat i) b l)"
    by (rule post_year_clock(2))
  have f: "withoutYear' (fst (projectPostRetirement_year (c1 0) si pri (ra + of_nat i) b l)) =
    withoutYear' (fst (projectPostRetirement_year (c2 0) si pri (ra + of_nat i) b l))"
    by (rule post_year_clock(1))
  show ?case
  proof (cases rule: post_from_cases[of i m b c1 ra si pri l])
    case stop
    then show ?thesis
      by (simp add: post_from_stop)
  next
    case last
    then show ?thesis
      using post_from_last[of i m b c2 si pri ra l] f by (simp add: s)
  next
    case step
    then show ?thesis
      using post_from_step[of i m b c2 si pri ra l] f loop.IH[of "later c2"] by (simp add: s)
  qed
qed

lemma post_records:
  "r \<in> set (projectPostRetirement c sb ra si pri m) \<Longrightarrow>
     \<exists>y a' b' l'. r = fst (projectPostRetirement_year y si pri a' b' l')"
  unfolding projectPostRetirement_def by (rule post_from_records)

lemma post_from_year:
  "k < length (projectPostRetirement_from c ra si pri m i b l) \<Longrightarrow>
   PostRetirementYearProjection.year (projectPostRetirement_from c ra si pri m i b l ! k) =
     of_int (c k) +
     (PostRetirementYearProjection.age (projectPostRetirement_from c ra si pri m i b l ! k)
      - currentAge si) \<and>
   PostRetirementYearProjection.age (projectPostRetirement_from c ra si pri m i b l ! k) =
     ra + of_nat (i + k)"
proof -
  assume "k < length (projectPostRetirement_from c ra si pri m i b l)"
  then obtain b' where "projectPostRetirement_from c ra si pri m i b l ! k =
     fst (projectPostRetirement_year (c k) si pri (ra + of_nat (i + k)) b'
            (l * (1 + inflationRate si / 100) ^ k))"
    using post_from_nth by blast
  then show ?thesis
    by (simp add: projectPostRetirement_year_def Let_def)
qed

subsection \<open>Runs under two clocks\<close>

text \<open>
  A record is determined by its fields other than \<^verbatim>\<open>year\<close> and its \<^verbatim>\<open>year\<close>,
  so two runs are equal when their clocks agree on the readings that are taken.
\<close>

lemma withoutYear_eq:
  "withoutYear r = withoutYear r' \<Longrightarrow> SuperYearProjection.year r = SuperYearProjection.year r' \<Longrightarrow>
     r = r'"
  by (cases r, cases r') (simp add: withoutYear_def)

lemma withoutYear'_eq:
  "withoutYear' r = withoutYear' r' \<Longrightarrow>
   PostRetirementYearProjection.year r = PostRetirementYearProjection.year r' \<Longrightarrow> r = r'"
  by (cases r, cases r') (simp add: withoutYear'_def)

lemma withoutYear_age:
  "SuperYearProjection.age (withoutYear r) = SuperYearProjection.age r"
  "PostRetirementYearProjection.age (withoutYear' p) = PostRetirementYearProjection.age p"
  by (simp_all add: withoutYear_def withoutYear'_def)

lemma super_from_same_clock:
  assumes "\<forall>k < length (projectSuperannuationBalance_from c1 inputs a b s). c1 k = c2 k"
  shows "projectSuperannuationBalance_from c1 inputs a b s =
         projectSuperannuationBalance_from c2 inputs a b s"
proof -
  let ?xs = "projectSuperannuationBalance_from c1 inputs a b s"
  let ?ys = "projectSuperannuationBalance_from c2 inputs a b s"
  have m: "map withoutYear ?xs = map withoutYear ?ys"
    by (rule super_from_clock)
  then have len: "length ?xs = length ?ys"
    by (rule map_eq_imp_length_eq)
  show ?thesis
  proof (rule nth_equalityI[OF len])
    fix k
    assume k: "k < length ?xs"
    with len have k': "k < length ?ys"
      by simp
    from m have "map withoutYear ?xs ! k = map withoutYear ?ys ! k"
      by simp
    with k k' have w: "withoutYear (?xs ! k) = withoutYear (?ys ! k)"
      by simp
    then have "SuperYearProjection.age (withoutYear (?xs ! k)) =
        SuperYearProjection.age (withoutYear (?ys ! k))"
      by simp
    then have "SuperYearProjection.age (?xs ! k) = SuperYearProjection.age (?ys ! k)"
      by (simp only: withoutYear_age)
    with k k' assms have "SuperYearProjection.year (?xs ! k) = SuperYearProjection.year (?ys ! k)"
      by (simp add: super_from_year)
    with w show "?xs ! k = ?ys ! k"
      by (rule withoutYear_eq)
  qed
qed

lemma post_from_same_clock:
  assumes "\<forall>k < length (projectPostRetirement_from c1 ra si pri m i b l). c1 k = c2 k"
  shows "projectPostRetirement_from c1 ra si pri m i b l =
         projectPostRetirement_from c2 ra si pri m i b l"
proof -
  let ?xs = "projectPostRetirement_from c1 ra si pri m i b l"
  let ?ys = "projectPostRetirement_from c2 ra si pri m i b l"
  have m: "map withoutYear' ?xs = map withoutYear' ?ys"
    by (rule post_from_clock)
  then have len: "length ?xs = length ?ys"
    by (rule map_eq_imp_length_eq)
  show ?thesis
  proof (rule nth_equalityI[OF len])
    fix k
    assume k: "k < length ?xs"
    with len have k': "k < length ?ys"
      by simp
    from m have "map withoutYear' ?xs ! k = map withoutYear' ?ys ! k"
      by simp
    with k k' have w: "withoutYear' (?xs ! k) = withoutYear' (?ys ! k)"
      by simp
    from k k' assms have "PostRetirementYearProjection.year (?xs ! k) =
        PostRetirementYearProjection.year (?ys ! k)"
      by (simp add: post_from_year)
    with w show "?xs ! k = ?ys ! k"
      by (rule withoutYear'_eq)
  qed
qed

section \<open>Claims\<close>

subsection \<open>Evaluation of the concrete inputs\<close>

lemma twoYear_run:
  "projectSuperannuationBalance clock2025 twoYearInputs =
    [\<lparr>SuperYearProjection.year = 2025, age = 30, startingBalance = 50000,
      sgContributions = 9200, voluntaryConcessional = 0,
      voluntaryNonConcessional = 0, totalConcessional = 9200,
      investmentReturns = 4144, taxOnEarnings = 3108 / 5,
      endingBalance = 313612 / 5, concessionalCapExceededBy = None,
      nonConcessionalCapExceededBy = None\<rparr>,
     \<lparr>SuperYearProjection.year = 2026, age = 31, startingBalance = 313612 / 5,
      sgContributions = 9476, voluntaryConcessional = 0,
      voluntaryNonConcessional = 0, totalConcessional = 9476,
      investmentReturns = 631736 / 125, taxOnEarnings = 473802 / 625,
      endingBalance = 47808878 / 625, concessionalCapExceededBy = None,
      nonConcessionalCapExceededBy = None\<rparr>]"
  by code_simp

lemma overCap_run:
  "projectSuperannuationBalance clock2025 overCapInputs =
    [\<lparr>SuperYearProjection.year = 2025, age = 60, startingBalance = 1850000,
      sgContributions = 34500, voluntaryConcessional = 10000,
      voluntaryNonConcessional = 110000, totalConcessional = 44500,
      investmentReturns = 140315, taxOnEarnings = 84189 / 4,
      endingBalance = 8495071 / 4, concessionalCapExceededBy = Some 17000,
      nonConcessionalCapExceededBy = Some 40000\<rparr>,
     \<lparr>SuperYearProjection.year = 2026, age = 61, startingBalance = 8495071 / 4,
      sgContributions = 35535, voluntaryConcessional = 10000,
      voluntaryNonConcessional = 0, totalConcessional = 45535,
      investmentReturns = 60740477 / 400, taxOnEarnings = 182221431 / 8000,
      endingBalance = 18387010109 / 8000,
      concessionalCapExceededBy = Some 18035,
      nonConcessionalCapExceededBy = Some 150000\<rparr>]"
  by code_simp

lemma oneYear_run:
  "projectSuperannuationBalance clock2025 oneYearInputs =
    [\<lparr>SuperYearProjection.year = 2025, age = 30, startingBalance = 100000,
     sgContributions = 9200, voluntaryConcessional = 0,
     voluntaryNonConcessional = 0, totalConcessional = 9200,
     investmentReturns = 7644, taxOnEarnings = 5733 / 5,
     endingBalance = 578487 / 5, concessionalCapExceededBy = None,
     nonConcessionalCapExceededBy = None\<rparr>]"
  by code_simp

lemma overdrawnInputs_run:
  "projectSuperannuationBalance clock2025 overdrawnInputs =
    [\<lparr>SuperYearProjection.year = 2025, age = 30, startingBalance = - 1000,
      sgContributions = 0, voluntaryConcessional = 0,
      voluntaryNonConcessional = 0, totalConcessional = 0,
      investmentReturns = - 70, taxOnEarnings = 0, endingBalance = - 1070,
      concessionalCapExceededBy = None, nonConcessionalCapExceededBy = None\<rparr>]"
  by code_simp

lemma loss_run:
  "projectSuperannuationBalance clock2025 lossInputs =
   [\<lparr>SuperYearProjection.year = 2025, age = 30, startingBalance = 1000,
     sgContributions = 0, voluntaryConcessional = 0,
     voluntaryNonConcessional = 0, totalConcessional = 0,
     investmentReturns = - 2000, taxOnEarnings = 0, endingBalance = - 1000,
     concessionalCapExceededBy = None, nonConcessionalCapExceededBy = None\<rparr>,
  \<lparr>SuperYearProjection.year = 2026, age = 31, startingBalance = - 1000,
     sgContributions = 0, voluntaryConcessional = 0,
     voluntaryNonConcessional = 0, totalConcessional = 0,
     investmentReturns = 2000, taxOnEarnings = 300, endingBalance = 700,
     concessionalCapExceededBy = None, nonConcessionalCapExceededBy = None\<rparr>,
  \<lparr>SuperYearProjection.year = 2027, age = 32, startingBalance = 700,
     sgContributions = 0, voluntaryConcessional = 0,
     voluntaryNonConcessional = 0, totalConcessional = 0,
     investmentReturns = - 1400, taxOnEarnings = 0, endingBalance = - 700,
     concessionalCapExceededBy = None,
     nonConcessionalCapExceededBy = None\<rparr>]"
  by code_simp

lemma exhaust_run:
  "projectPostRetirement clock2025 100000 67 noReturnInputs defaultPostInputs 35 =
   [\<lparr>PostRetirementYearProjection.year = 2062, age = 67,
     startingBalance = 100000, investmentReturns = 0, drawdown = 60000,
     otherIncome = 0, totalIncome = 60000, shortfall = None,
     endingBalance = 40000\<rparr>,
  \<lparr>PostRetirementYearProjection.year = 2063, age = 68,
     startingBalance = 40000, investmentReturns = 0, drawdown = 40000,
     otherIncome = 0, totalIncome = 40000, shortfall = Some 21500,
     endingBalance = 0\<rparr>]"
  by code_simp

lemma overdrawn_run:
  "projectPostRetirement clock2025 (- 100) 67 noReturnInputs defaultPostInputs 35 =
   [\<lparr>PostRetirementYearProjection.year = 2062, age = 67,
     startingBalance = - 100, investmentReturns = 0, drawdown = 0,
     otherIncome = 0, totalIncome = 0, shortfall = Some 60000,
     endingBalance = 0\<rparr>]"
  by code_simp

lemma oneYearHorizon_run:
  "projectPostRetirement clock2025 10000 67 noReturnInputs defaultPostInputs 1 =
   [\<lparr>PostRetirementYearProjection.year = 2062, age = 67,
     startingBalance = 10000, investmentReturns = 0, drawdown = 10000,
     otherIncome = 0, totalIncome = 10000, shortfall = Some 50000,
     endingBalance = 0\<rparr>]"
  by code_simp

lemma twoYear_run_2026:
  "projectSuperannuationBalance clock2026 twoYearInputs =
    [\<lparr>SuperYearProjection.year = 2026, age = 30, startingBalance = 50000,
      sgContributions = 9200, voluntaryConcessional = 0,
      voluntaryNonConcessional = 0, totalConcessional = 9200,
      investmentReturns = 4144, taxOnEarnings = 3108 / 5,
      endingBalance = 313612 / 5, concessionalCapExceededBy = None,
      nonConcessionalCapExceededBy = None\<rparr>,
     \<lparr>SuperYearProjection.year = 2027, age = 31, startingBalance = 313612 / 5,
      sgContributions = 9476, voluntaryConcessional = 0,
      voluntaryNonConcessional = 0, totalConcessional = 9476,
      investmentReturns = 631736 / 125, taxOnEarnings = 473802 / 625,
      endingBalance = 47808878 / 625, concessionalCapExceededBy = None,
      nonConcessionalCapExceededBy = None\<rparr>]"
  by code_simp

lemma exhaust_run_2026:
  "projectPostRetirement clock2026 100000 67 noReturnInputs defaultPostInputs 35 =
   [\<lparr>PostRetirementYearProjection.year = 2063, age = 67,
     startingBalance = 100000, investmentReturns = 0, drawdown = 60000,
     otherIncome = 0, totalIncome = 60000, shortfall = None,
     endingBalance = 40000\<rparr>,
  \<lparr>PostRetirementYearProjection.year = 2064, age = 68,
     startingBalance = 40000, investmentReturns = 0, drawdown = 40000,
     otherIncome = 0, totalIncome = 40000, shortfall = Some 21500,
     endingBalance = 0\<rparr>]"
  by code_simp

lemma twoYear_run_turn:
  "projectSuperannuationBalance turnOfYearClock twoYearInputs =
     projectSuperannuationBalance clock2025 twoYearInputs"
  by code_simp

subsection \<open>Accumulation\<close>

text \<open>
  Claim C1. Every record returned by \<^verbatim>\<open>projectSuperannuationBalance\<close> satisfies
  \<open>endingBalance = startingBalance + totalConcessional + voluntaryNonConcessional +
  investmentReturns - taxOnEarnings\<close>, where \<open>voluntaryNonConcessional\<close> is the stored,
  capped amount; the equation is exact in rational arithmetic.
\<close>

theorem accumulation_balance_equation:
  "\<forall>r \<in> set (projectSuperannuationBalance getFullYear inputs).
     SuperYearProjection.endingBalance r =
       SuperYearProjection.startingBalance r + totalConcessional r + voluntaryNonConcessional r
       + SuperYearProjection.investmentReturns r - taxOnEarnings r"
proof
  fix r
  assume "r \<in> set (projectSuperannuationBalance getFullYear inputs)"
  then obtain y a b s where "r = projectSuperannuationBalance_year y inputs a b s"
    using super_records by blast
  then show "SuperYearProjection.endingBalance r =
       SuperYearProjection.startingBalance r + totalConcessional r + voluntaryNonConcessional r
       + SuperYearProjection.investmentReturns r - taxOnEarnings r"
    by (simp add: projectSuperannuationBalance_year_def Let_def)
qed

text \<open>The second of the two years of \<open>twoYearInputs\<close>: 47808878/625 = 76494.2048.\<close>

theorem accumulation_balance_equation_witness:
  "projectSuperannuationBalance clock2025 twoYearInputs ! 1
     \<in> set (projectSuperannuationBalance clock2025 twoYearInputs) \<and>
   SuperYearProjection.endingBalance (projectSuperannuationBalance clock2025 twoYearInputs ! 1) =
     SuperYearProjection.startingBalance (projectSuperannuationBalance clock2025 twoYearInputs ! 1)
     + totalConcessional (projectSuperannuationBalance clock2025 twoYearInputs ! 1)
     + voluntaryNonConcessional (projectSuperannuationBalance clock2025 twoYearInputs ! 1)
     + SuperYearProjection.investmentReturns (projectSuperannuationBalance clock2025 twoYearInputs ! 1)
     - taxOnEarnings (projectSuperannuationBalance clock2025 twoYearInputs ! 1) \<and>
   SuperYearProjection.endingBalance (projectSuperannuationBalance clock2025 twoYearInputs ! 1) =
     47808878 / 625"
proof -
  have "projectSuperannuationBalance clock2025 twoYearInputs ! 1
     \<in> set (projectSuperannuationBalance clock2025 twoYearInputs)"
    by (simp add: twoYear_run)
  moreover have "SuperYearProjection.endingBalance
      (projectSuperannuationBalance clock2025 twoYearInputs ! 1) = 47808878 / 625"
    by (simp add: twoYear_run)
  ultimately show ?thesis
    using accumulation_balance_equation [of clock2025 twoYearInputs] by blast
qed

text \<open>
  Claim C4. In every record, \<^verbatim>\<open>concessionalCapExceededBy\<close> is present if and only if
  \<open>sgContributions + voluntaryConcessionalContribution > 27500\<close>, and then it is the
  exact excess over 27500. The breach does not reduce the contribution:
  \<open>totalConcessional\<close> is the full sum, and the full sum enters the balance on which
  the returns are computed and the ending balance.
\<close>

theorem concessional_cap_informational:
  "\<forall>r \<in> set (projectSuperannuationBalance getFullYear inputs).
     concessionalCapExceededBy r =
       (if sgContributions r + voluntaryConcessionalContribution inputs > 27500
        then Some (sgContributions r + voluntaryConcessionalContribution inputs - 27500)
        else None) \<and>
     totalConcessional r = sgContributions r + voluntaryConcessionalContribution inputs \<and>
     SuperYearProjection.investmentReturns r =
       (SuperYearProjection.startingBalance r + totalConcessional r + voluntaryNonConcessional r)
       * (expectedReturnRate inputs / 100) \<and>
     SuperYearProjection.endingBalance r =
       SuperYearProjection.startingBalance r + totalConcessional r + voluntaryNonConcessional r
       + SuperYearProjection.investmentReturns r - taxOnEarnings r"
proof
  fix r
  assume "r \<in> set (projectSuperannuationBalance getFullYear inputs)"
  then obtain y a b s where r: "r = projectSuperannuationBalance_year y inputs a b s"
    using super_records by blast
  show "concessionalCapExceededBy r =
       (if sgContributions r + voluntaryConcessionalContribution inputs > 27500
        then Some (sgContributions r + voluntaryConcessionalContribution inputs - 27500)
        else None) \<and>
     totalConcessional r = sgContributions r + voluntaryConcessionalContribution inputs \<and>
     SuperYearProjection.investmentReturns r =
       (SuperYearProjection.startingBalance r + totalConcessional r + voluntaryNonConcessional r)
       * (expectedReturnRate inputs / 100) \<and>
     SuperYearProjection.endingBalance r =
       SuperYearProjection.startingBalance r + totalConcessional r + voluntaryNonConcessional r
       + SuperYearProjection.investmentReturns r - taxOnEarnings r"
    unfolding r
    by (simp add: projectSuperannuationBalance_year_def Let_def CONCESSIONAL_CONTRIBUTION_CAP_def)
qed

theorem concessional_cap_informational_witness:
  "projectSuperannuationBalance clock2025 overCapInputs ! 0
     \<in> set (projectSuperannuationBalance clock2025 overCapInputs) \<and>
   sgContributions (projectSuperannuationBalance clock2025 overCapInputs ! 0)
     + voluntaryConcessionalContribution overCapInputs = 44500 \<and>
   concessionalCapExceededBy (projectSuperannuationBalance clock2025 overCapInputs ! 0) = Some 17000 \<and>
   totalConcessional (projectSuperannuationBalance clock2025 overCapInputs ! 0) = 44500 \<and>
   SuperYearProjection.investmentReturns (projectSuperannuationBalance clock2025 overCapInputs ! 0) =
     (1850000 + 44500 + 110000) * (7 / 100)"
proof -
  let ?r = "projectSuperannuationBalance clock2025 overCapInputs ! 0"
  have m: "?r \<in> set (projectSuperannuationBalance clock2025 overCapInputs)"
    by (simp add: overCap_run)
  have i: "voluntaryConcessionalContribution overCapInputs = 10000"
    "expectedReturnRate overCapInputs = 7"
    by (simp_all add: overCapInputs_def)
  have v: "sgContributions ?r = 34500"
    "SuperYearProjection.startingBalance ?r = 1850000" "voluntaryNonConcessional ?r = 110000"
    by (simp_all add: overCap_run)
  from concessional_cap_informational [of clock2025 overCapInputs] m
  have "concessionalCapExceededBy ?r =
       (if sgContributions ?r + voluntaryConcessionalContribution overCapInputs > 27500
        then Some (sgContributions ?r + voluntaryConcessionalContribution overCapInputs - 27500)
        else None) \<and>
     totalConcessional ?r = sgContributions ?r + voluntaryConcessionalContribution overCapInputs \<and>
     SuperYearProjection.investmentReturns ?r =
       (SuperYearProjection.startingBalance ?r + totalConcessional ?r + voluntaryNonConcessional ?r)
       * (expectedReturnRate overCapInputs / 100)"
    by blast
  with m v i show ?thesis
    by simp
qed

text \<open>
  Claim C5. In every record the effective non-concessional cap is 0 when the year's
  starting balance is at least 1900000 and 110000 otherwise; the stored
  \<^verbatim>\<open>voluntaryNonConcessional\<close> is the minimum of the input amount and that cap, and
  \<^verbatim>\<open>nonConcessionalCapExceededBy\<close> is present if and only if the input amount
  exceeds the cap, with the exact excess as its value.
\<close>

theorem non_concessional_cap:
  "\<forall>r \<in> set (projectSuperannuationBalance getFullYear inputs).
     (SuperYearProjection.startingBalance r \<ge> 1900000 \<longrightarrow>
        voluntaryNonConcessional r = min (voluntaryNonConcessionalContribution inputs) 0 \<and>
        nonConcessionalCapExceededBy r =
          (if voluntaryNonConcessionalContribution inputs > 0
           then Some (voluntaryNonConcessionalContribution inputs - 0) else None)) \<and>
     (SuperYearProjection.startingBalance r < 1900000 \<longrightarrow>
        voluntaryNonConcessional r = min (voluntaryNonConcessionalContribution inputs) 110000 \<and>
        nonConcessionalCapExceededBy r =
          (if voluntaryNonConcessionalContribution inputs > 110000
           then Some (voluntaryNonConcessionalContribution inputs - 110000) else None))"
proof
  fix r
  assume "r \<in> set (projectSuperannuationBalance getFullYear inputs)"
  then obtain y a b s where r: "r = projectSuperannuationBalance_year y inputs a b s"
    using super_records by blast
  show "(SuperYearProjection.startingBalance r \<ge> 1900000 \<longrightarrow>
        voluntaryNonConcessional r = min (voluntaryNonConcessionalContribution inputs) 0 \<and>
        nonConcessionalCapExceededBy r =
          (if voluntaryNonConcessionalContribution inputs > 0
           then Some (voluntaryNonConcessionalContribution inputs - 0) else None)) \<and>
     (SuperYearProjection.startingBalance r < 1900000 \<longrightarrow>
        voluntaryNonConcessional r = min (voluntaryNonConcessionalContribution inputs) 110000 \<and>
        nonConcessionalCapExceededBy r =
          (if voluntaryNonConcessionalContribution inputs > 110000
           then Some (voluntaryNonConcessionalContribution inputs - 110000) else None))"
    unfolding r
    by (simp add: projectSuperannuationBalance_year_def Let_def
        NON_CONCESSIONAL_CONTRIBUTION_CAP_def TOTAL_SUPER_BALANCE_LIMIT_FOR_NON_CONCESSIONAL_def)
qed

theorem non_concessional_cap_witness:
  "projectSuperannuationBalance clock2025 overCapInputs ! 0
     \<in> set (projectSuperannuationBalance clock2025 overCapInputs) \<and>
   SuperYearProjection.startingBalance (projectSuperannuationBalance clock2025 overCapInputs ! 0)
     < 1900000 \<and>
   voluntaryNonConcessional (projectSuperannuationBalance clock2025 overCapInputs ! 0) = 110000 \<and>
   nonConcessionalCapExceededBy (projectSuperannuationBalance clock2025 overCapInputs ! 0)
     = Some 40000 \<and>
   projectSuperannuationBalance clock2025 overCapInputs ! 1
     \<in> set (projectSuperannuationBalance clock2025 overCapInputs) \<and>
   SuperYearProjection.startingBalance (projectSuperannuationBalance clock2025 overCapInputs ! 1)
     \<ge> 1900000 \<and>
   voluntaryNonConcessional (projectSuperannuationBalance clock2025 overCapInputs ! 1) = 0 \<and>
   nonConcessionalCapExceededBy (projectSuperannuationBalance clock2025 overCapInputs ! 1)
     = Some 150000"
proof -
  let ?rs = "projectSuperannuationBalance clock2025 overCapInputs"
  have m: "?rs ! 0 \<in> set ?rs" "?rs ! 1 \<in> set ?rs"
    by (simp_all add: overCap_run)
  have i: "voluntaryNonConcessionalContribution overCapInputs = 150000"
    by (simp add: overCapInputs_def)
  have v: "SuperYearProjection.startingBalance (?rs ! 0) < 1900000"
    "SuperYearProjection.startingBalance (?rs ! 1) \<ge> 1900000"
    by (simp_all add: overCap_run)
  from non_concessional_cap [of clock2025 overCapInputs] m v(1,2)
  have "voluntaryNonConcessional (?rs ! 0) =
          min (voluntaryNonConcessionalContribution overCapInputs) 110000"
    "nonConcessionalCapExceededBy (?rs ! 0) =
          (if voluntaryNonConcessionalContribution overCapInputs > 110000
           then Some (voluntaryNonConcessionalContribution overCapInputs - 110000) else None)"
    "voluntaryNonConcessional (?rs ! 1) =
          min (voluntaryNonConcessionalContribution overCapInputs) 0"
    "nonConcessionalCapExceededBy (?rs ! 1) =
          (if voluntaryNonConcessionalContribution overCapInputs > 0
           then Some (voluntaryNonConcessionalContribution overCapInputs - 0) else None)"
    by blast+
  with m v i show ?thesis
    by simp
qed

text \<open>
  Claim C7. The tax rule of the claim holds, but its example does not hold for every
  balance before returns \<open>B\<close>: a single year at \<^verbatim>\<open>expectedReturnRate = 7\<close> that
  starts from a balance of -1000 with no contributions has \<open>B = -1000\<close>, returns of
  -70, no tax rather than \<open>0.15 * 0.07 * B = -10.5\<close>, and an ending balance of -1070
  rather than \<open>B * 1.0595 = -1059.5\<close>.
\<close>

theorem earnings_tax_counterexample:
  "retirementAge overdrawnInputs = currentAge overdrawnInputs + 1 \<and>
   expectedReturnRate overdrawnInputs = 7 \<and>
   length (projectSuperannuationBalance clock2025 overdrawnInputs) = 1 \<and>
   SuperYearProjection.startingBalance (projectSuperannuationBalance clock2025 overdrawnInputs ! 0)
     + totalConcessional (projectSuperannuationBalance clock2025 overdrawnInputs ! 0)
     + voluntaryNonConcessional (projectSuperannuationBalance clock2025 overdrawnInputs ! 0)
     = - 1000 \<and>
   SuperYearProjection.investmentReturns (projectSuperannuationBalance clock2025 overdrawnInputs ! 0)
     = 7 / 100 * (- 1000) \<and>
   taxOnEarnings (projectSuperannuationBalance clock2025 overdrawnInputs ! 0) = 0 \<and>
   taxOnEarnings (projectSuperannuationBalance clock2025 overdrawnInputs ! 0)
     \<noteq> 15 / 100 * (7 / 100) * (- 1000) \<and>
   SuperYearProjection.endingBalance (projectSuperannuationBalance clock2025 overdrawnInputs ! 0)
     = - 1070 \<and>
   SuperYearProjection.endingBalance (projectSuperannuationBalance clock2025 overdrawnInputs ! 0)
     \<noteq> - 1000 * (10595 / 10000)"
proof -
  have "retirementAge overdrawnInputs = currentAge overdrawnInputs + 1"
    "expectedReturnRate overdrawnInputs = 7"
    by (simp_all add: overdrawnInputs_def)
  then show ?thesis
    by (simp add: overdrawnInputs_run)
qed

text \<open>
  Claim C7, amended. In every record, \<^verbatim>\<open>taxOnEarnings\<close> is \<open>investmentReturns * 0.15\<close>
  when the returns are positive and 0 otherwise. For a projection of a single year at
  \<^verbatim>\<open>expectedReturnRate = 7\<close>, with \<open>B\<close> the balance before returns
  (\<open>startingBalance + totalConcessional + voluntaryNonConcessional\<close> of the one record),
  the returns are \<open>0.07 * B\<close>, and for \<open>B \<ge> 0\<close> the tax is \<open>0.15 * 0.07 * B\<close> and
  the ending balance is \<open>B * 1.0595\<close>. \<open>B\<close> is not negative when the balance, the
  salary and the two voluntary contributions of the input are not.
\<close>

theorem earnings_tax:
  "(\<forall>r \<in> set (projectSuperannuationBalance getFullYear inputs).
      taxOnEarnings r =
        (if SuperYearProjection.investmentReturns r > 0
         then SuperYearProjection.investmentReturns r * (15 / 100) else 0)) \<and>
   (retirementAge inputs = currentAge inputs + 1 \<longrightarrow> expectedReturnRate inputs = 7 \<longrightarrow>
      (\<exists>r. projectSuperannuationBalance getFullYear inputs = [r] \<and>
         SuperYearProjection.startingBalance r = currentBalance inputs \<and>
         SuperYearProjection.investmentReturns r =
           7 / 100 * (SuperYearProjection.startingBalance r + totalConcessional r
                      + voluntaryNonConcessional r) \<and>
         (0 \<le> currentBalance inputs \<and> 0 \<le> annualSalary inputs \<and>
          0 \<le> voluntaryConcessionalContribution inputs \<and>
          0 \<le> voluntaryNonConcessionalContribution inputs \<longrightarrow>
            0 \<le> SuperYearProjection.startingBalance r + totalConcessional r
                + voluntaryNonConcessional r) \<and>
         (0 \<le> SuperYearProjection.startingBalance r + totalConcessional r
                + voluntaryNonConcessional r \<longrightarrow>
            taxOnEarnings r =
              15 / 100 * (7 / 100) * (SuperYearProjection.startingBalance r + totalConcessional r
                      + voluntaryNonConcessional r) \<and>
            SuperYearProjection.endingBalance r =
              (SuperYearProjection.startingBalance r + totalConcessional r
                      + voluntaryNonConcessional r) * (10595 / 10000))))"
proof (intro conjI ballI impI)
  fix r
  assume "r \<in> set (projectSuperannuationBalance getFullYear inputs)"
  then obtain y a b s where r: "r = projectSuperannuationBalance_year y inputs a b s"
    using super_records by blast
  show "taxOnEarnings r =
        (if SuperYearProjection.investmentReturns r > 0
         then SuperYearProjection.investmentReturns r * (15 / 100) else 0)"
    unfolding r
    by (simp add: projectSuperannuationBalance_year_def Let_def SUPER_EARNINGS_TAX_RATE_def)
next
  assume one: "retirementAge inputs = currentAge inputs + 1"
    and rate: "expectedReturnRate inputs = 7"
  let ?r = "projectSuperannuationBalance_year (getFullYear 0) inputs (currentAge inputs)
              (currentBalance inputs) (annualSalary inputs)"
  let ?B = "SuperYearProjection.startingBalance ?r + totalConcessional ?r
              + voluntaryNonConcessional ?r"
  have run: "projectSuperannuationBalance getFullYear inputs = [?r]"
    by (simp add: projectSuperannuationBalance_def super_from_unfold_lt super_from_unfold_ge one)
  have start: "SuperYearProjection.startingBalance ?r = currentBalance inputs"
    by (simp add: projectSuperannuationBalance_year_def Let_def)
  have ret: "SuperYearProjection.investmentReturns ?r = 7 / 100 * ?B"
    by (simp add: projectSuperannuationBalance_year_def Let_def rate)
  have valid: "0 \<le> ?B"
    if "0 \<le> currentBalance inputs \<and> 0 \<le> annualSalary inputs \<and>
        0 \<le> voluntaryConcessionalContribution inputs \<and>
        0 \<le> voluntaryNonConcessionalContribution inputs"
    using that by (simp add: projectSuperannuationBalance_year_def Let_def constants_defs)
  have tax: "taxOnEarnings ?r = 15 / 100 * (7 / 100) * ?B" if "0 \<le> ?B"
  proof (cases "?B = 0")
    case True
    then show ?thesis
      using ret by (simp add: projectSuperannuationBalance_year_def Let_def)
  next
    case False
    with that have "0 < SuperYearProjection.investmentReturns ?r"
      using ret by simp
    then have "taxOnEarnings ?r = SuperYearProjection.investmentReturns ?r * (15 / 100)"
      by (simp add: projectSuperannuationBalance_year_def Let_def SUPER_EARNINGS_TAX_RATE_def)
    with ret show ?thesis
      by simp
  qed
  have ending: "SuperYearProjection.endingBalance ?r = ?B * (10595 / 10000)" if "0 \<le> ?B"
  proof -
    have "SuperYearProjection.endingBalance ?r =
        ?B + SuperYearProjection.investmentReturns ?r - taxOnEarnings ?r"
      by (simp add: projectSuperannuationBalance_year_def Let_def)
    with ret tax[OF that] show ?thesis
      by (simp add: algebra_simps)
  qed
  from run start ret valid tax ending
  show "\<exists>r. projectSuperannuationBalance getFullYear inputs = [r] \<and>
         SuperYearProjection.startingBalance r = currentBalance inputs \<and>
         SuperYearProjection.investmentReturns r =
           7 / 100 * (SuperYearProjection.startingBalance r + totalConcessional r
                      + voluntaryNonConcessional r) \<and>
         (0 \<le> currentBalance inputs \<and> 0 \<le> annualSalary inputs \<and>
          0 \<le> voluntaryConcessionalContribution inputs \<and>
          0 \<le> voluntaryNonConcessionalContribution inputs \<longrightarrow>
            0 \<le> SuperYearProjection.startingBalance r + totalConcessional r
                + voluntaryNonConcessional r) \<and>
         (0 \<le> SuperYearProjection.startingBalance r + totalConcessional r
                + voluntaryNonConcessional r \<longrightarrow>
            taxOnEarnings r =
              15 / 100 * (7 / 100) * (SuperYearProjection.startingBalance r + totalConcessional r
                      + voluntaryNonConcessional r) \<and>
            SuperYearProjection.endingBalance r =
              (SuperYearProjection.startingBalance r + totalConcessional r
                      + voluntaryNonConcessional r) * (10595 / 10000))"
    by blast
qed

theorem earnings_tax_witness:
  "projectSuperannuationBalance clock2025 oneYearInputs ! 0
     \<in> set (projectSuperannuationBalance clock2025 oneYearInputs) \<and>
   retirementAge oneYearInputs = currentAge oneYearInputs + 1 \<and>
   expectedReturnRate oneYearInputs = 7 \<and>
   0 \<le> currentBalance oneYearInputs \<and> 0 \<le> annualSalary oneYearInputs \<and>
   0 \<le> voluntaryConcessionalContribution oneYearInputs \<and>
   0 \<le> voluntaryNonConcessionalContribution oneYearInputs \<and>
   SuperYearProjection.startingBalance (projectSuperannuationBalance clock2025 oneYearInputs ! 0)
     + totalConcessional (projectSuperannuationBalance clock2025 oneYearInputs ! 0)
     + voluntaryNonConcessional (projectSuperannuationBalance clock2025 oneYearInputs ! 0) = 109200 \<and>
   SuperYearProjection.investmentReturns (projectSuperannuationBalance clock2025 oneYearInputs ! 0)
     = 7 / 100 * 109200 \<and>
   taxOnEarnings (projectSuperannuationBalance clock2025 oneYearInputs ! 0)
     = 15 / 100 * (7 / 100) * 109200 \<and>
   SuperYearProjection.endingBalance (projectSuperannuationBalance clock2025 oneYearInputs ! 0)
     = 109200 * (10595 / 10000)"
proof -
  let ?rs = "projectSuperannuationBalance clock2025 oneYearInputs"
  let ?B = "\<lambda>r. SuperYearProjection.startingBalance r + totalConcessional r
              + voluntaryNonConcessional r"
  have i: "retirementAge oneYearInputs = currentAge oneYearInputs + 1"
    "expectedReturnRate oneYearInputs = 7"
    "0 \<le> currentBalance oneYearInputs" "0 \<le> annualSalary oneYearInputs"
    "0 \<le> voluntaryConcessionalContribution oneYearInputs"
    "0 \<le> voluntaryNonConcessionalContribution oneYearInputs"
    by (simp_all add: oneYearInputs_def)
  have m: "?rs ! 0 \<in> set ?rs" and b: "?B (?rs ! 0) = 109200"
    by (simp_all add: oneYear_run)
  from earnings_tax [of clock2025 oneYearInputs] i
  obtain r where r: "?rs = [r]"
    "SuperYearProjection.investmentReturns r = 7 / 100 * ?B r"
    "0 \<le> ?B r"
    "0 \<le> ?B r \<longrightarrow> taxOnEarnings r = 15 / 100 * (7 / 100) * ?B r \<and>
       SuperYearProjection.endingBalance r = ?B r * (10595 / 10000)"
    by blast
  from r(1) have "?rs ! 0 = r"
    by simp
  with r(2,3,4) b have "SuperYearProjection.investmentReturns (?rs ! 0) = 7 / 100 * 109200"
    "taxOnEarnings (?rs ! 0) = 15 / 100 * (7 / 100) * 109200"
    "SuperYearProjection.endingBalance (?rs ! 0) = 109200 * (10595 / 10000)"
    by simp_all
  with i m b show ?thesis
    by blast
qed

text \<open>
  Claim C8. For integer \<^verbatim>\<open>currentAge\<close> and \<^verbatim>\<open>retirementAge\<close> the ages of the
  records are \<open>currentAge, currentAge + 1, \<dots>, retirementAge - 1\<close>, so there are
  exactly \<open>max 0 (retirementAge - currentAge)\<close> records, and none when
  \<open>retirementAge \<le> currentAge\<close>.
\<close>

theorem accumulation_ages:
  assumes "currentAge inputs = of_int lo" and "retirementAge inputs = of_int hi"
  shows "map SuperYearProjection.age (projectSuperannuationBalance getFullYear inputs) =
           map of_int [lo..hi - 1] \<and>
         int (length (projectSuperannuationBalance getFullYear inputs)) = max 0 (hi - lo) \<and>
         (hi \<le> lo \<longrightarrow> projectSuperannuationBalance getFullYear inputs = [])"
proof -
  have ages: "map SuperYearProjection.age (projectSuperannuationBalance getFullYear inputs) =
           map of_int [lo..hi - 1]"
    unfolding projectSuperannuationBalance_def assms(1) by (rule super_from_ages [OF assms(2)])
  then have "length (map SuperYearProjection.age (projectSuperannuationBalance getFullYear inputs)) =
           length (map (of_int :: int \<Rightarrow> rat) [lo..hi - 1])"
    by simp
  then have len: "int (length (projectSuperannuationBalance getFullYear inputs)) = max 0 (hi - lo)"
    by simp
  then have "hi \<le> lo \<longrightarrow> projectSuperannuationBalance getFullYear inputs = []"
    by auto
  with ages len show ?thesis
    by blast
qed

theorem accumulation_ages_witness:
  "currentAge twoYearInputs = of_int 30 \<and> retirementAge twoYearInputs = of_int 32 \<and>
   map SuperYearProjection.age (projectSuperannuationBalance clock2025 twoYearInputs) = [30, 31] \<and>
   int (length (projectSuperannuationBalance clock2025 twoYearInputs)) = 2"
proof -
  have i: "currentAge twoYearInputs = of_int 30" "retirementAge twoYearInputs = of_int 32"
    by (simp_all add: twoYearInputs_def)
  have u: "[30..32 - 1 :: int] = [30, 31]"
    by code_simp
  from accumulation_ages [OF i, of clock2025] u i show ?thesis
    by simp
qed

text \<open>
  Claim C10. The accumulation has no floor at zero. In any record whose balance
  before returns is positive, a return rate below -100 gives a negative ending balance;
  each record's ending balance is the next record's starting balance, unchanged; and
  there is an input (\<open>lossInputs\<close>: balance 1000, rate -200, three years) whose
  first and final ending balances are negative, the latter being the balance handed to
  the drawdown phase.
\<close>

theorem accumulation_no_floor:
  "(\<forall>r \<in> set (projectSuperannuationBalance getFullYear inputs).
      0 < SuperYearProjection.startingBalance r + totalConcessional r + voluntaryNonConcessional r
        \<longrightarrow> expectedReturnRate inputs < - 100 \<longrightarrow> SuperYearProjection.endingBalance r < 0) \<and>
   (\<forall>k. Suc k < length (projectSuperannuationBalance getFullYear inputs) \<longrightarrow>
      SuperYearProjection.startingBalance (projectSuperannuationBalance getFullYear inputs ! Suc k) =
      SuperYearProjection.endingBalance (projectSuperannuationBalance getFullYear inputs ! k)) \<and>
   (\<exists>inputs'. 0 < currentBalance inputs' \<and> expectedReturnRate inputs' < - 100 \<and>
      length (projectSuperannuationBalance getFullYear inputs') = 3 \<and>
      SuperYearProjection.endingBalance (projectSuperannuationBalance getFullYear inputs' ! 0) < 0 \<and>
      SuperYearProjection.startingBalance (projectSuperannuationBalance getFullYear inputs' ! 1) =
      SuperYearProjection.endingBalance (projectSuperannuationBalance getFullYear inputs' ! 0) \<and>
      SuperYearProjection.endingBalance (last (projectSuperannuationBalance getFullYear inputs')) < 0)"
proof (intro conjI ballI impI allI)
  fix r
  assume "r \<in> set (projectSuperannuationBalance getFullYear inputs)"
  then obtain y a b s where r: "r = projectSuperannuationBalance_year y inputs a b s"
    using super_records by blast
  let ?B = "SuperYearProjection.startingBalance r + totalConcessional r + voluntaryNonConcessional r"
  assume pos: "0 < ?B" and rate: "expectedReturnRate inputs < - 100"
  have ret: "SuperYearProjection.investmentReturns r = ?B * (expectedReturnRate inputs / 100)"
    unfolding r by (simp add: projectSuperannuationBalance_year_def Let_def)
  from rate have "expectedReturnRate inputs / 100 < - 1"
    by simp
  with pos have "?B * (expectedReturnRate inputs / 100) < ?B * (- 1)"
    by (rule mult_strict_left_mono[rotated])
  with ret have lt: "SuperYearProjection.investmentReturns r < - ?B"
    by simp
  with pos have "\<not> 0 < SuperYearProjection.investmentReturns r"
    by simp
  then have "taxOnEarnings r = 0"
    unfolding r by (simp add: projectSuperannuationBalance_year_def Let_def)
  moreover have "SuperYearProjection.endingBalance r =
      ?B + SuperYearProjection.investmentReturns r - taxOnEarnings r"
    unfolding r by (simp add: projectSuperannuationBalance_year_def Let_def)
  ultimately show "SuperYearProjection.endingBalance r < 0"
    using lt by simp
next
  fix k
  assume "Suc k < length (projectSuperannuationBalance getFullYear inputs)"
  then show "SuperYearProjection.startingBalance (projectSuperannuationBalance getFullYear inputs ! Suc k) =
      SuperYearProjection.endingBalance (projectSuperannuationBalance getFullYear inputs ! k)"
    unfolding projectSuperannuationBalance_def by (rule super_from_chain)
next
  have e: "projectSuperannuationBalance getFullYear lossInputs =
    [projectSuperannuationBalance_year (getFullYear 0) lossInputs 30 1000 0,
     projectSuperannuationBalance_year (getFullYear (Suc 0)) lossInputs 31 (- 1000) 0,
     projectSuperannuationBalance_year (getFullYear (Suc (Suc 0))) lossInputs 32 700 0]"
    by (simp add: projectSuperannuationBalance_def projectSuperannuationBalance_from.simps
      projectSuperannuationBalance_year_def Let_def constants_defs lossInputs_def later_def)
  have "0 < currentBalance lossInputs" "expectedReturnRate lossInputs < - 100"
    by (simp_all add: lossInputs_def)
  moreover have "length (projectSuperannuationBalance getFullYear lossInputs) = 3"
    by (simp add: e)
  moreover have "SuperYearProjection.endingBalance (projectSuperannuationBalance getFullYear lossInputs ! 0) = - 1000"
    "SuperYearProjection.startingBalance (projectSuperannuationBalance getFullYear lossInputs ! 1) = - 1000"
    "SuperYearProjection.endingBalance (last (projectSuperannuationBalance getFullYear lossInputs)) = - 700"
    unfolding e
    by (simp_all add: projectSuperannuationBalance_year_def Let_def constants_defs lossInputs_def)
  ultimately show "\<exists>inputs'. 0 < currentBalance inputs' \<and> expectedReturnRate inputs' < - 100 \<and>
      length (projectSuperannuationBalance getFullYear inputs') = 3 \<and>
      SuperYearProjection.endingBalance (projectSuperannuationBalance getFullYear inputs' ! 0) < 0 \<and>
      SuperYearProjection.startingBalance (projectSuperannuationBalance getFullYear inputs' ! 1) =
      SuperYearProjection.endingBalance (projectSuperannuationBalance getFullYear inputs' ! 0) \<and>
      SuperYearProjection.endingBalance (last (projectSuperannuationBalance getFullYear inputs')) < 0"
    by (intro exI[of _ lossInputs]) simp
qed


theorem accumulation_no_floor_witness:
  "projectSuperannuationBalance clock2025 lossInputs ! 0
     \<in> set (projectSuperannuationBalance clock2025 lossInputs) \<and>
   0 < SuperYearProjection.startingBalance (projectSuperannuationBalance clock2025 lossInputs ! 0)
       + totalConcessional (projectSuperannuationBalance clock2025 lossInputs ! 0)
       + voluntaryNonConcessional (projectSuperannuationBalance clock2025 lossInputs ! 0) \<and>
   expectedReturnRate lossInputs < - 100 \<and>
   SuperYearProjection.endingBalance (projectSuperannuationBalance clock2025 lossInputs ! 0) < 0 \<and>
   Suc 0 < length (projectSuperannuationBalance clock2025 lossInputs) \<and>
   SuperYearProjection.startingBalance (projectSuperannuationBalance clock2025 lossInputs ! Suc 0) =
     SuperYearProjection.endingBalance (projectSuperannuationBalance clock2025 lossInputs ! 0)"
proof -
  let ?rs = "projectSuperannuationBalance clock2025 lossInputs"
  have i: "expectedReturnRate lossInputs < - 100"
    by (simp add: lossInputs_def)
  have m: "?rs ! 0 \<in> set ?rs"
    "0 < SuperYearProjection.startingBalance (?rs ! 0) + totalConcessional (?rs ! 0)
         + voluntaryNonConcessional (?rs ! 0)"
    "Suc 0 < length ?rs"
    by (simp_all add: loss_run)
  from accumulation_no_floor [of clock2025 lossInputs] m i
  have "SuperYearProjection.endingBalance (?rs ! 0) < 0"
    "SuperYearProjection.startingBalance (?rs ! Suc 0) = SuperYearProjection.endingBalance (?rs ! 0)"
    by blast+
  with m i show ?thesis
    by blast
qed

subsection \<open>Drawdown\<close>

text \<open>
  Claim C3. Every record returned by \<^verbatim>\<open>projectPostRetirement\<close> has
  \<open>endingBalance = max 0 (startingBalance + investmentReturns - drawdown)\<close>, so its
  ending balance is never negative. Its starting balance is not negative either when
  the balance handed to the projector is not: the first record starts from that
  balance, and every later one from a positive ending balance.
\<close>

theorem drawdown_balance_floor:
  "\<forall>r \<in> set (projectPostRetirement getFullYear startingRetirementBalance retirementAge'
       superInputs postRetirementInputs maxYears).
     PostRetirementYearProjection.endingBalance r =
       max 0 (PostRetirementYearProjection.startingBalance r
              + PostRetirementYearProjection.investmentReturns r - drawdown r) \<and>
     0 \<le> PostRetirementYearProjection.endingBalance r \<and>
     (0 \<le> startingRetirementBalance \<longrightarrow> 0 \<le> PostRetirementYearProjection.startingBalance r)"
proof (intro ballI conjI impI)
  fix r
  assume m: "r \<in> set (projectPostRetirement getFullYear startingRetirementBalance retirementAge'
       superInputs postRetirementInputs maxYears)"
  then obtain y a b l
    where r: "r = fst (projectPostRetirement_year y superInputs postRetirementInputs a b l)"
    using post_records by blast
  show e: "PostRetirementYearProjection.endingBalance r =
       max 0 (PostRetirementYearProjection.startingBalance r
              + PostRetirementYearProjection.investmentReturns r - drawdown r)"
    unfolding r by (simp add: post_year_ending post_year_snd)
  show "0 \<le> PostRetirementYearProjection.endingBalance r"
    by (simp add: e)
  assume "0 \<le> startingRetirementBalance"
  with m show "0 \<le> PostRetirementYearProjection.startingBalance r"
    unfolding projectPostRetirement_def by (rule post_from_start_nonneg[rotated -1])
qed

theorem drawdown_balance_floor_witness:
  "projectPostRetirement clock2025 100000 67 noReturnInputs defaultPostInputs 35 ! 1
     \<in> set (projectPostRetirement clock2025 100000 67 noReturnInputs defaultPostInputs 35) \<and>
   (0 :: rat) \<le> 100000 \<and>
   PostRetirementYearProjection.endingBalance
     (projectPostRetirement clock2025 100000 67 noReturnInputs defaultPostInputs 35 ! 1) =
     max 0 (40000 + 0 - 40000) \<and>
   0 \<le> PostRetirementYearProjection.endingBalance
     (projectPostRetirement clock2025 100000 67 noReturnInputs defaultPostInputs 35 ! 1) \<and>
   0 \<le> PostRetirementYearProjection.startingBalance
     (projectPostRetirement clock2025 100000 67 noReturnInputs defaultPostInputs 35 ! 1) \<and>
   projectPostRetirement clock2025 (- 100) 67 noReturnInputs defaultPostInputs 35 ! 0
     \<in> set (projectPostRetirement clock2025 (- 100) 67 noReturnInputs defaultPostInputs 35) \<and>
   PostRetirementYearProjection.endingBalance
     (projectPostRetirement clock2025 (- 100) 67 noReturnInputs defaultPostInputs 35 ! 0) =
     max 0 (- 100 + 0 - 0)"
proof -
  let ?rs = "projectPostRetirement clock2025 100000 67 noReturnInputs defaultPostInputs 35"
  let ?os = "projectPostRetirement clock2025 (- 100) 67 noReturnInputs defaultPostInputs 35"
  have m: "?rs ! 1 \<in> set ?rs" "?os ! 0 \<in> set ?os"
    by (simp_all add: exhaust_run overdrawn_run)
  have v: "PostRetirementYearProjection.startingBalance (?rs ! 1) = 40000"
    "PostRetirementYearProjection.investmentReturns (?rs ! 1) = 0" "drawdown (?rs ! 1) = 40000"
    "PostRetirementYearProjection.startingBalance (?os ! 0) = - 100"
    "PostRetirementYearProjection.investmentReturns (?os ! 0) = 0" "drawdown (?os ! 0) = 0"
    by (simp_all add: exhaust_run overdrawn_run)
  from drawdown_balance_floor [of clock2025 100000 67 noReturnInputs defaultPostInputs 35] m(1)
  have "PostRetirementYearProjection.endingBalance (?rs ! 1) =
       max 0 (PostRetirementYearProjection.startingBalance (?rs ! 1)
              + PostRetirementYearProjection.investmentReturns (?rs ! 1) - drawdown (?rs ! 1))"
    "0 \<le> PostRetirementYearProjection.endingBalance (?rs ! 1)"
    "0 \<le> PostRetirementYearProjection.startingBalance (?rs ! 1)"
    by simp_all
  moreover
  from drawdown_balance_floor [of clock2025 "- 100" 67 noReturnInputs defaultPostInputs 35] m(2)
  have "PostRetirementYearProjection.endingBalance (?os ! 0) =
       max 0 (PostRetirementYearProjection.startingBalance (?os ! 0)
              + PostRetirementYearProjection.investmentReturns (?os ! 0) - drawdown (?os ! 0))"
    by simp
  ultimately show ?thesis
    using m by (simp only: v) simp
qed

text \<open>
  Claim C6. In the record of index \<open>k\<close> the living expenses of the year are
  \<open>annualLivingExpenses * (1 + inflationRate / 100) ^ k\<close>. \<^verbatim>\<open>shortfall\<close> is present
  if and only if they exceed \<open>drawdown + otherIncome\<close>, and its value is the exact
  difference; \<open>drawdown + otherIncome\<close> is the record's \<^verbatim>\<open>totalIncome\<close>.
\<close>

theorem shortfall_rule:
  "\<forall>k < length (projectPostRetirement getFullYear startingRetirementBalance retirementAge'
       superInputs postRetirementInputs maxYears).
     shortfall (projectPostRetirement getFullYear startingRetirementBalance retirementAge'
       superInputs postRetirementInputs maxYears ! k) =
       (if annualLivingExpenses postRetirementInputs * (1 + inflationRate superInputs / 100) ^ k
           > drawdown (projectPostRetirement getFullYear startingRetirementBalance retirementAge'
               superInputs postRetirementInputs maxYears ! k)
             + otherIncome (projectPostRetirement getFullYear startingRetirementBalance retirementAge'
               superInputs postRetirementInputs maxYears ! k)
        then Some (annualLivingExpenses postRetirementInputs
                     * (1 + inflationRate superInputs / 100) ^ k
           - (drawdown (projectPostRetirement getFullYear startingRetirementBalance retirementAge'
               superInputs postRetirementInputs maxYears ! k)
             + otherIncome (projectPostRetirement getFullYear startingRetirementBalance retirementAge'
               superInputs postRetirementInputs maxYears ! k)))
        else None) \<and>
     otherIncome (projectPostRetirement getFullYear startingRetirementBalance retirementAge'
       superInputs postRetirementInputs maxYears ! k) = otherInvestmentIncome postRetirementInputs \<and>
     totalIncome (projectPostRetirement getFullYear startingRetirementBalance retirementAge'
       superInputs postRetirementInputs maxYears ! k) =
       drawdown (projectPostRetirement getFullYear startingRetirementBalance retirementAge'
               superInputs postRetirementInputs maxYears ! k)
       + otherIncome (projectPostRetirement getFullYear startingRetirementBalance retirementAge'
               superInputs postRetirementInputs maxYears ! k)"
proof (intro allI impI)
  fix k
  let ?rs = "projectPostRetirement getFullYear startingRetirementBalance retirementAge'
       superInputs postRetirementInputs maxYears"
  let ?L = "annualLivingExpenses postRetirementInputs * (1 + inflationRate superInputs / 100) ^ k"
  assume "k < length ?rs"
  then obtain b where r: "?rs ! k =
     fst (projectPostRetirement_year (getFullYear k) superInputs postRetirementInputs
            (retirementAge' + of_nat (0 + k)) b ?L)"
    unfolding projectPostRetirement_def using post_from_nth by blast
  show "shortfall (?rs ! k) =
       (if ?L > drawdown (?rs ! k) + otherIncome (?rs ! k)
        then Some (?L - (drawdown (?rs ! k) + otherIncome (?rs ! k)))
        else None) \<and>
     otherIncome (?rs ! k) = otherInvestmentIncome postRetirementInputs \<and>
     totalIncome (?rs ! k) = drawdown (?rs ! k) + otherIncome (?rs ! k)"
    unfolding r by (simp add: projectPostRetirement_year_def Let_def)
qed


theorem shortfall_rule_witness:
  "1 < length (projectPostRetirement clock2025 100000 67 noReturnInputs defaultPostInputs 35) \<and>
   annualLivingExpenses defaultPostInputs * (1 + inflationRate noReturnInputs / 100) ^ 1 = 61500 \<and>
   drawdown (projectPostRetirement clock2025 100000 67 noReturnInputs defaultPostInputs 35 ! 1)
     + otherIncome (projectPostRetirement clock2025 100000 67 noReturnInputs defaultPostInputs 35 ! 1)
     = 40000 \<and>
   shortfall (projectPostRetirement clock2025 100000 67 noReturnInputs defaultPostInputs 35 ! 1)
     = Some (61500 - 40000) \<and>
   0 < length (projectPostRetirement clock2025 100000 67 noReturnInputs defaultPostInputs 35) \<and>
   annualLivingExpenses defaultPostInputs * (1 + inflationRate noReturnInputs / 100) ^ 0 = 60000 \<and>
   drawdown (projectPostRetirement clock2025 100000 67 noReturnInputs defaultPostInputs 35 ! 0)
     + otherIncome (projectPostRetirement clock2025 100000 67 noReturnInputs defaultPostInputs 35 ! 0)
     = 60000 \<and>
   shortfall (projectPostRetirement clock2025 100000 67 noReturnInputs defaultPostInputs 35 ! 0)
     = None"
proof -
  let ?rs = "projectPostRetirement clock2025 100000 67 noReturnInputs defaultPostInputs 35"
  have l: "1 < length ?rs" "0 < length ?rs"
    by (simp_all add: exhaust_run)
  have i: "annualLivingExpenses defaultPostInputs * (1 + inflationRate noReturnInputs / 100) ^ 1
      = 61500"
    "annualLivingExpenses defaultPostInputs * (1 + inflationRate noReturnInputs / 100) ^ 0
      = 60000"
    by (simp_all add: defaultPostInputs_def noReturnInputs_def)
  have v: "drawdown (?rs ! 1) + otherIncome (?rs ! 1) = 40000"
    "drawdown (?rs ! 0) + otherIncome (?rs ! 0) = 60000"
    by (simp_all add: exhaust_run)
  from shortfall_rule [of clock2025 100000 67 noReturnInputs defaultPostInputs 35] l
  have "shortfall (?rs ! 1) =
       (if annualLivingExpenses defaultPostInputs * (1 + inflationRate noReturnInputs / 100) ^ 1
           > drawdown (?rs ! 1) + otherIncome (?rs ! 1)
        then Some (annualLivingExpenses defaultPostInputs
                     * (1 + inflationRate noReturnInputs / 100) ^ 1
           - (drawdown (?rs ! 1) + otherIncome (?rs ! 1)))
        else None)"
    "shortfall (?rs ! 0) =
       (if annualLivingExpenses defaultPostInputs * (1 + inflationRate noReturnInputs / 100) ^ 0
           > drawdown (?rs ! 0) + otherIncome (?rs ! 0)
        then Some (annualLivingExpenses defaultPostInputs
                     * (1 + inflationRate noReturnInputs / 100) ^ 0
           - (drawdown (?rs ! 0) + otherIncome (?rs ! 0)))
        else None)"
    by blast+
  then have "shortfall (?rs ! 1) = Some (61500 - 40000)" "shortfall (?rs ! 0) = None"
    by (simp_all only: i v) simp_all
  with l i v show ?thesis
    by blast
qed

text \<open>
  Claim C2. As stated the claim fails when the depletion falls in the last year of the
  horizon: the run then has \<open>maxYears\<close> records although a computed ending balance
  (\<open>startingBalance + investmentReturns - drawdown\<close>, the value before the floor) is
  not positive. With starting balance 10000, living expenses 60000, no other income,
  no returns and \<^verbatim>\<open>maxYears = 1\<close> the single record is the depletion year.
\<close>

theorem drawdown_horizon_counterexample:
  "length (projectPostRetirement clock2025 10000 67 noReturnInputs defaultPostInputs 1) = 1 \<and>
   \<not> of_nat (length (projectPostRetirement clock2025 10000 67 noReturnInputs defaultPostInputs 1))
       < (1 :: rat) \<and>
   PostRetirementYearProjection.startingBalance
       (projectPostRetirement clock2025 10000 67 noReturnInputs defaultPostInputs 1 ! 0)
     + PostRetirementYearProjection.investmentReturns
       (projectPostRetirement clock2025 10000 67 noReturnInputs defaultPostInputs 1 ! 0)
     - drawdown (projectPostRetirement clock2025 10000 67 noReturnInputs defaultPostInputs 1 ! 0)
     \<le> 0"
  by (simp add: oneYearHorizon_run)

text \<open>
  Claim C2, amended. The run has at most \<open>nat \<lceil>maxYears\<rceil>\<close> records, which is
  \<^verbatim>\<open>maxYears\<close> itself for a whole number of years. Only the last record can have a
  computed ending balance that is not positive. A run with fewer records than the
  horizon ends with such a record, the depletion year, whose stored ending balance is 0;
  and the run is shorter than the horizon exactly when the computed ending balance of
  some year before the last year of the horizon is not positive. For a starting balance
  of 10000, living expenses of 60000, no other income, no returns and a positive
  horizon there is exactly one record, with drawdown 10000 and ending balance 0.
\<close>

theorem drawdown_horizon:
  "length (projectPostRetirement getFullYear startingRetirementBalance retirementAge'
       superInputs postRetirementInputs maxYears) \<le> nat \<lceil>maxYears\<rceil> \<and>
   (\<forall>k. Suc k < length (projectPostRetirement getFullYear startingRetirementBalance
          retirementAge' superInputs postRetirementInputs maxYears) \<longrightarrow>
      0 < PostRetirementYearProjection.startingBalance (projectPostRetirement getFullYear
            startingRetirementBalance retirementAge' superInputs postRetirementInputs maxYears ! k)
        + PostRetirementYearProjection.investmentReturns (projectPostRetirement getFullYear
            startingRetirementBalance retirementAge' superInputs postRetirementInputs maxYears ! k)
        - drawdown (projectPostRetirement getFullYear
            startingRetirementBalance retirementAge' superInputs postRetirementInputs maxYears ! k)) \<and>
   (length (projectPostRetirement getFullYear startingRetirementBalance retirementAge'
       superInputs postRetirementInputs maxYears) < nat \<lceil>maxYears\<rceil> \<longrightarrow>
      projectPostRetirement getFullYear startingRetirementBalance retirementAge'
        superInputs postRetirementInputs maxYears \<noteq> [] \<and>
      PostRetirementYearProjection.startingBalance (last (projectPostRetirement getFullYear
            startingRetirementBalance retirementAge' superInputs postRetirementInputs maxYears))
        + PostRetirementYearProjection.investmentReturns (last (projectPostRetirement getFullYear
            startingRetirementBalance retirementAge' superInputs postRetirementInputs maxYears))
        - drawdown (last (projectPostRetirement getFullYear
            startingRetirementBalance retirementAge' superInputs postRetirementInputs maxYears)) \<le> 0 \<and>
      PostRetirementYearProjection.endingBalance (last (projectPostRetirement getFullYear
            startingRetirementBalance retirementAge' superInputs postRetirementInputs maxYears)) = 0) \<and>
   (length (projectPostRetirement getFullYear startingRetirementBalance retirementAge'
       superInputs postRetirementInputs maxYears) < nat \<lceil>maxYears\<rceil> \<longleftrightarrow>
      (\<exists>k. k < length (projectPostRetirement getFullYear startingRetirementBalance retirementAge'
              superInputs postRetirementInputs maxYears) \<and> Suc k < nat \<lceil>maxYears\<rceil> \<and>
        PostRetirementYearProjection.startingBalance (projectPostRetirement getFullYear
            startingRetirementBalance retirementAge' superInputs postRetirementInputs maxYears ! k)
        + PostRetirementYearProjection.investmentReturns (projectPostRetirement getFullYear
            startingRetirementBalance retirementAge' superInputs postRetirementInputs maxYears ! k)
        - drawdown (projectPostRetirement getFullYear
            startingRetirementBalance retirementAge' superInputs postRetirementInputs maxYears ! k)
        \<le> 0)) \<and>
   (startingRetirementBalance = 10000 \<and> annualLivingExpenses postRetirementInputs = 60000 \<and>
    otherInvestmentIncome postRetirementInputs = 0 \<and> expectedReturnRate superInputs = 0 \<and>
    0 < maxYears \<longrightarrow>
      (\<exists>r. projectPostRetirement getFullYear startingRetirementBalance retirementAge'
             superInputs postRetirementInputs maxYears = [r] \<and>
           drawdown r = 10000 \<and> PostRetirementYearProjection.endingBalance r = 0))"
proof -
  let ?rs = "projectPostRetirement getFullYear startingRetirementBalance retirementAge'
       superInputs postRetirementInputs maxYears"
  let ?e = "\<lambda>r. PostRetirementYearProjection.startingBalance r
        + PostRetirementYearProjection.investmentReturns r - drawdown r"
  have len: "length ?rs \<le> nat \<lceil>maxYears\<rceil>"
    unfolding projectPostRetirement_def
    using post_from_length[of getFullYear retirementAge' superInputs postRetirementInputs maxYears 0]
    by simp
  have pos: "0 < ?e (?rs ! k)" if "Suc k < length ?rs" for k
    using that unfolding projectPostRetirement_def by (rule post_from_positive)
  have early: "?rs \<noteq> [] \<and> ?e (last ?rs) \<le> 0 \<and>
      PostRetirementYearProjection.endingBalance (last ?rs) = 0"
    if "length ?rs < nat \<lceil>maxYears\<rceil>"
    using that unfolding projectPostRetirement_def
    using post_from_early[of getFullYear retirementAge' superInputs postRetirementInputs maxYears 0]
    by simp
  have iff: "length ?rs < nat \<lceil>maxYears\<rceil> \<longleftrightarrow>
      (\<exists>k. k < length ?rs \<and> Suc k < nat \<lceil>maxYears\<rceil> \<and> ?e (?rs ! k) \<le> 0)"
  proof
    assume short: "length ?rs < nat \<lceil>maxYears\<rceil>"
    with early have ne: "?rs \<noteq> []" and "?e (last ?rs) \<le> 0"
      by simp_all
    then have "?e (?rs ! (length ?rs - 1)) \<le> 0"
      by (simp add: last_conv_nth)
    moreover from ne have "length ?rs - 1 < length ?rs" "Suc (length ?rs - 1) = length ?rs"
      by simp_all
    ultimately show "\<exists>k. k < length ?rs \<and> Suc k < nat \<lceil>maxYears\<rceil> \<and> ?e (?rs ! k) \<le> 0"
      using short by (intro exI[of _ "length ?rs - 1"]) simp
  next
    assume "\<exists>k. k < length ?rs \<and> Suc k < nat \<lceil>maxYears\<rceil> \<and> ?e (?rs ! k) \<le> 0"
    then obtain k where k: "k < length ?rs" "Suc k < nat \<lceil>maxYears\<rceil>" "?e (?rs ! k) \<le> 0"
      by blast
    from k(3) pos[of k] have "\<not> Suc k < length ?rs"
      by auto
    with k(1) have "length ?rs = Suc k"
      by simp
    with k(2) show "length ?rs < nat \<lceil>maxYears\<rceil>"
      by simp
  qed
  have example: "\<exists>r. ?rs = [r] \<and> drawdown r = 10000 \<and>
      PostRetirementYearProjection.endingBalance r = 0"
    if "startingRetirementBalance = 10000 \<and> annualLivingExpenses postRetirementInputs = 60000 \<and>
        otherInvestmentIncome postRetirementInputs = 0 \<and> expectedReturnRate superInputs = 0 \<and>
        0 < maxYears"
  proof -
    let ?p = "projectPostRetirement_year (getFullYear 0) superInputs postRetirementInputs
        (retirementAge' + of_nat 0) 10000 60000"
    from that have s: "snd ?p = 0" and d: "drawdown (fst ?p) = 10000"
      and e: "PostRetirementYearProjection.endingBalance (fst ?p) = 0"
      by (simp_all add: projectPostRetirement_year_def Let_def)
    from that s have "?rs = [fst ?p]"
      unfolding projectPostRetirement_def
      using post_from_last[of 0 maxYears 10000 getFullYear superInputs postRetirementInputs
          retirementAge' 60000]
      by simp
    with d e show ?thesis
      by blast
  qed
  from len pos early iff example show ?thesis
    by blast
qed

text \<open>The second half is the example under the default horizon of 35 years.\<close>

theorem drawdown_horizon_witness:
  "Suc 0 < length (projectPostRetirement clock2025 100000 67 noReturnInputs defaultPostInputs 35) \<and>
   0 < PostRetirementYearProjection.startingBalance
         (projectPostRetirement clock2025 100000 67 noReturnInputs defaultPostInputs 35 ! 0)
       + PostRetirementYearProjection.investmentReturns
         (projectPostRetirement clock2025 100000 67 noReturnInputs defaultPostInputs 35 ! 0)
       - drawdown (projectPostRetirement clock2025 100000 67 noReturnInputs defaultPostInputs 35 ! 0) \<and>
   length (projectPostRetirement clock2025 100000 67 noReturnInputs defaultPostInputs 35)
     < nat \<lceil>35 :: rat\<rceil> \<and>
   projectPostRetirement clock2025 100000 67 noReturnInputs defaultPostInputs 35 \<noteq> [] \<and>
   PostRetirementYearProjection.endingBalance
     (last (projectPostRetirement clock2025 100000 67 noReturnInputs defaultPostInputs 35)) = 0 \<and>
   annualLivingExpenses defaultPostInputs = 60000 \<and>
   otherInvestmentIncome defaultPostInputs = 0 \<and> expectedReturnRate noReturnInputs = 0 \<and>
   (0 :: rat) < 35 \<and>
   length (projectPostRetirement_default clock2025 10000 67 noReturnInputs defaultPostInputs) = 1 \<and>
   drawdown (projectPostRetirement_default clock2025 10000 67 noReturnInputs defaultPostInputs ! 0)
     = 10000 \<and>
   PostRetirementYearProjection.endingBalance
     (projectPostRetirement_default clock2025 10000 67 noReturnInputs defaultPostInputs ! 0) = 0"
proof -
  let ?rs = "projectPostRetirement clock2025 100000 67 noReturnInputs defaultPostInputs 35"
  let ?xs = "projectPostRetirement_default clock2025 10000 67 noReturnInputs defaultPostInputs"
  have l: "Suc 0 < length ?rs" "length ?rs < nat \<lceil>35 :: rat\<rceil>"
    by (simp_all add: exhaust_run)
  have i: "annualLivingExpenses defaultPostInputs = 60000"
    "otherInvestmentIncome defaultPostInputs = 0" "expectedReturnRate noReturnInputs = 0"
    by (simp_all add: defaultPostInputs_def noReturnInputs_def)
  from drawdown_horizon [of clock2025 100000 67 noReturnInputs defaultPostInputs 35] l
  have a: "0 < PostRetirementYearProjection.startingBalance (?rs ! 0)
       + PostRetirementYearProjection.investmentReturns (?rs ! 0) - drawdown (?rs ! 0)"
    "?rs \<noteq> []" "PostRetirementYearProjection.endingBalance (last ?rs) = 0"
    by blast+
  from drawdown_horizon [of clock2025 10000 67 noReturnInputs defaultPostInputs 35] i
  obtain r where "?xs = [r]" "drawdown r = 10000"
    "PostRetirementYearProjection.endingBalance r = 0"
    unfolding projectPostRetirement_default_def by auto
  then have b: "length ?xs = 1" "drawdown (?xs ! 0) = 10000"
    "PostRetirementYearProjection.endingBalance (?xs ! 0) = 0"
    by simp_all
  from l i a b show ?thesis
    by simp
qed

subsection \<open>Both projectors\<close>

text \<open>
  Claim C9. As stated the claim fails: both projectors read the wall clock, and the
  same inputs give other \<^verbatim>\<open>year\<close> fields in 2026 than in 2025.
\<close>

theorem clock_only_in_year_counterexample:
  "SuperYearProjection.year (projectSuperannuationBalance clock2025 twoYearInputs ! 0) = 2025 \<and>
   SuperYearProjection.year (projectSuperannuationBalance clock2026 twoYearInputs ! 0) = 2026 \<and>
   projectSuperannuationBalance clock2025 twoYearInputs \<noteq>
     projectSuperannuationBalance clock2026 twoYearInputs \<and>
   PostRetirementYearProjection.year
     (projectPostRetirement clock2025 100000 67 noReturnInputs defaultPostInputs 35 ! 0) = 2062 \<and>
   PostRetirementYearProjection.year
     (projectPostRetirement clock2026 100000 67 noReturnInputs defaultPostInputs 35 ! 0) = 2063 \<and>
   projectPostRetirement clock2025 100000 67 noReturnInputs defaultPostInputs 35 \<noteq>
     projectPostRetirement clock2026 100000 67 noReturnInputs defaultPostInputs 35"
  by (simp add: twoYear_run twoYear_run_2026 exhaust_run exhaust_run_2026)

text \<open>
  Claim C9, amended. For equal inputs two invocations return sequences that agree in
  every field other than \<^verbatim>\<open>year\<close>, whatever the clock reads. The \<^verbatim>\<open>year\<close> of
  the record of index \<open>k\<close> is the reading of the clock in that iteration plus
  \<open>age - currentAge\<close>. Hence two invocations with equal inputs return sequences equal
  in every field whenever the clock gives them the same readings.
\<close>

theorem clock_only_in_year:
  "map withoutYear (projectSuperannuationBalance clockA inputs) =
     map withoutYear (projectSuperannuationBalance clockB inputs) \<and>
   map withoutYear' (projectPostRetirement clockA startingRetirementBalance retirementAge'
       superInputs postRetirementInputs maxYears) =
     map withoutYear' (projectPostRetirement clockB startingRetirementBalance retirementAge'
       superInputs postRetirementInputs maxYears) \<and>
   (\<forall>k < length (projectSuperannuationBalance clockA inputs).
      SuperYearProjection.year (projectSuperannuationBalance clockA inputs ! k) =
        of_int (clockA k)
        + (SuperYearProjection.age (projectSuperannuationBalance clockA inputs ! k)
           - currentAge inputs)) \<and>
   (\<forall>k < length (projectPostRetirement clockA startingRetirementBalance retirementAge'
       superInputs postRetirementInputs maxYears).
      PostRetirementYearProjection.year (projectPostRetirement clockA startingRetirementBalance
          retirementAge' superInputs postRetirementInputs maxYears ! k) =
        of_int (clockA k)
        + (PostRetirementYearProjection.age (projectPostRetirement clockA
             startingRetirementBalance retirementAge' superInputs postRetirementInputs maxYears ! k)
           - currentAge superInputs)) \<and>
   ((\<forall>k < length (projectSuperannuationBalance clockA inputs). clockA k = clockB k) \<longrightarrow>
      projectSuperannuationBalance clockA inputs = projectSuperannuationBalance clockB inputs) \<and>
   ((\<forall>k < length (projectPostRetirement clockA startingRetirementBalance retirementAge'
       superInputs postRetirementInputs maxYears). clockA k = clockB k) \<longrightarrow>
      projectPostRetirement clockA startingRetirementBalance retirementAge'
        superInputs postRetirementInputs maxYears =
      projectPostRetirement clockB startingRetirementBalance retirementAge'
        superInputs postRetirementInputs maxYears)"
proof (intro conjI allI impI)
  show "map withoutYear (projectSuperannuationBalance clockA inputs) =
     map withoutYear (projectSuperannuationBalance clockB inputs)"
    unfolding projectSuperannuationBalance_def by (rule super_from_clock)
  show "map withoutYear' (projectPostRetirement clockA startingRetirementBalance retirementAge'
       superInputs postRetirementInputs maxYears) =
     map withoutYear' (projectPostRetirement clockB startingRetirementBalance retirementAge'
       superInputs postRetirementInputs maxYears)"
    unfolding projectPostRetirement_def by (rule post_from_clock)
next
  fix k
  assume "k < length (projectSuperannuationBalance clockA inputs)"
  then show "SuperYearProjection.year (projectSuperannuationBalance clockA inputs ! k) =
        of_int (clockA k)
        + (SuperYearProjection.age (projectSuperannuationBalance clockA inputs ! k)
           - currentAge inputs)"
    unfolding projectSuperannuationBalance_def by (rule super_from_year)
next
  fix k
  assume "k < length (projectPostRetirement clockA startingRetirementBalance retirementAge'
       superInputs postRetirementInputs maxYears)"
  then show "PostRetirementYearProjection.year (projectPostRetirement clockA startingRetirementBalance
          retirementAge' superInputs postRetirementInputs maxYears ! k) =
        of_int (clockA k)
        + (PostRetirementYearProjection.age (projectPostRetirement clockA
             startingRetirementBalance retirementAge' superInputs postRetirementInputs maxYears ! k)
           - currentAge superInputs)"
    unfolding projectPostRetirement_def using post_from_year by blast
next
  assume "\<forall>k < length (projectSuperannuationBalance clockA inputs). clockA k = clockB k"
  then show "projectSuperannuationBalance clockA inputs = projectSuperannuationBalance clockB inputs"
    unfolding projectSuperannuationBalance_def by (rule super_from_same_clock)
next
  assume "\<forall>k < length (projectPostRetirement clockA startingRetirementBalance retirementAge'
       superInputs postRetirementInputs maxYears). clockA k = clockB k"
  then show "projectPostRetirement clockA startingRetirementBalance retirementAge'
        superInputs postRetirementInputs maxYears =
      projectPostRetirement clockB startingRetirementBalance retirementAge'
        superInputs postRetirementInputs maxYears"
    unfolding projectPostRetirement_def by (rule post_from_same_clock)
qed

theorem clock_only_in_year_witness:
  "1 < length (projectSuperannuationBalance clock2025 twoYearInputs) \<and>
   SuperYearProjection.year (projectSuperannuationBalance clock2025 twoYearInputs ! 1) =
     of_int (clock2025 1) + (31 - currentAge twoYearInputs) \<and>
   1 < length (projectPostRetirement clock2025 100000 67 noReturnInputs defaultPostInputs 35) \<and>
   PostRetirementYearProjection.year
     (projectPostRetirement clock2025 100000 67 noReturnInputs defaultPostInputs 35 ! 1) =
     of_int (clock2025 1) + (68 - currentAge noReturnInputs) \<and>
   map withoutYear (projectSuperannuationBalance clock2025 twoYearInputs) =
     map withoutYear (projectSuperannuationBalance clock2026 twoYearInputs) \<and>
   length (projectSuperannuationBalance turnOfYearClock twoYearInputs) = 2 \<and>
   turnOfYearClock 0 = clock2025 0 \<and> turnOfYearClock 1 = clock2025 1 \<and>
   turnOfYearClock 2 \<noteq> clock2025 2 \<and>
   projectSuperannuationBalance turnOfYearClock twoYearInputs =
     projectSuperannuationBalance clock2025 twoYearInputs"
proof -
  let ?rs = "projectSuperannuationBalance clock2025 twoYearInputs"
  let ?ts = "projectSuperannuationBalance turnOfYearClock twoYearInputs"
  let ?ps = "projectPostRetirement clock2025 100000 67 noReturnInputs defaultPostInputs 35"
  have l: "1 < length ?rs" "1 < length ?ps"
    by (simp_all add: twoYear_run exhaust_run)
  have a: "SuperYearProjection.age (?rs ! 1) = 31" "PostRetirementYearProjection.age (?ps ! 1) = 68"
    by (simp_all add: twoYear_run exhaust_run)
  from clock_only_in_year [of clock2025 twoYearInputs clock2026 100000 67 noReturnInputs
      defaultPostInputs 35] l
  have y: "SuperYearProjection.year (?rs ! 1) =
      of_int (clock2025 1) + (SuperYearProjection.age (?rs ! 1) - currentAge twoYearInputs)"
    "PostRetirementYearProjection.year (?ps ! 1) =
      of_int (clock2025 1) + (PostRetirementYearProjection.age (?ps ! 1) - currentAge noReturnInputs)"
    "map withoutYear ?rs = map withoutYear (projectSuperannuationBalance clock2026 twoYearInputs)"
    by blast+
  have t: "length ?ts = 2"
    by (simp add: twoYear_run_turn twoYear_run)
  have c: "turnOfYearClock 0 = clock2025 0" "turnOfYearClock 1 = clock2025 1"
    "turnOfYearClock 2 \<noteq> clock2025 2"
    by (simp_all add: turnOfYearClock_def clock2025_def)
  from t c have "\<forall>k < length ?ts. turnOfYearClock k = clock2025 k"
    by (simp add: numeral_2_eq_2 less_Suc_eq)
  with clock_only_in_year [of turnOfYearClock twoYearInputs clock2025 100000 67 noReturnInputs
      defaultPostInputs 35]
  have "?ts = ?rs"
    by blast
  with l a y t c show ?thesis
    by simp
qed

end
